theory Spec2Isabelle
  imports Main
begin

section \<open>Terminal service (terminalService.ts)\<close>

subsection \<open>Data model\<close>

text \<open>
  Terminal instances are JavaScript objects that the service keeps in several arrays and
  compares by reference (\<open>indexOf\<close>). They are modelled by an explicit store: an
  \<open>instance_ref\<close> is a reference, \<open>heap\<close> maps it to the object's fields, and
  \<open>nextRef\<close> is the next unused reference.
\<close>

type_synonym instance_ref = nat

datatype TerminalLocation = Panel | Editor

datatype TerminalConnectionState = Connecting | Connected

record uri_components =
  scheme :: string
  authority :: string
  path :: string

text \<open>\<open>IShellLaunchConfig.cwd\<close> is \<open>string | URI | undefined\<close>.\<close>

datatype cwd_value = CwdString string | CwdUri uri_components

record reconnection_properties =
  ownerId :: string
  rp_data :: string

text \<open>
  The fields of \<open>IShellLaunchConfig\<close> that the service reads or writes.
  \<open>customPtyImplementation\<close> is whether that field is defined, and
  \<open>slc_reconnectionProperties\<close> stands for the reconnection properties that a launch
  configuration carries to the instance constructed from it.
\<close>

record shell_launch_config =
  customPtyImplementation :: bool
  hideFromUser :: bool
  cwd :: "cwd_value option"
  parentTerminalId :: "nat option"
  initialText :: "string option"
  slc_type :: "string option"
  slc_reconnectionProperties :: "reconnection_properties option"

text \<open>The object literal \<open>{}\<close> as a launch configuration: every field undefined.\<close>

definition emptyShellLaunchConfig :: shell_launch_config where
  "emptyShellLaunchConfig =
     \<lparr>customPtyImplementation = False, hideFromUser = False, cwd = None,
      parentTerminalId = None, initialText = None, slc_type = None,
      slc_reconnectionProperties = None\<rparr>"

record instance_obj =
  instanceId :: nat
  target :: "TerminalLocation option"
  reconnectionProperties :: "reconnection_properties option"
  shellLaunchConfig :: shell_launch_config
  hasFocus :: bool

text \<open>
  \<open>ITerminalLocationOptions\<close>: a \<open>TerminalLocation\<close>, \<open>{ viewColumn }\<close>,
  \<open>{ parentTerminal }\<close> or \<open>{ splitActiveTerminal }\<close>.
\<close>

datatype location_options =
    Loc TerminalLocation
  | ViewColumn int
  | ParentTerminal instance_ref
  | SplitActiveTerminal bool

record contributed_profile =
  extensionIdentifier :: string
  profile_id :: string
  icon :: "string option"
  color :: "string option"

text \<open>
  The \<open>config\<close> of \<open>ICreateTerminalOptions\<close>: an extension terminal profile (it has
  an \<open>extensionIdentifier\<close>), or a profile or launch configuration of the type \<open>'p\<close>
  that \<open>convertProfileToShellLaunchConfig\<close> takes.
\<close>

datatype 'p terminal_config = ExtensionProfile contributed_profile | Profile 'p

record 'p create_options =
  opt_config :: "'p terminal_config option"
  opt_location :: "location_options option"
  opt_cwd :: "cwd_value option"

record contributed_options =
  co_icon :: "string option"
  co_color :: "string option"
  co_location :: "location_options option"

datatype terminal_event =
    DidChangeConnectionState
  | DidChangeInstances
  | DidChangeGroups
  | DidRegisterProcessSupport
  | DidChangeActiveInstance "instance_ref option"

datatype reconnection = ReconnectRemote | ReconnectLocal | ReconnectNone

datatype terminal_error =
    ProcessSupportNotRegistered
  | CannotSplitWithoutActiveInstance
  | CannotSplitWithoutGroup
  | UriError
  | UndefinedInstance

record terminal_backend =
  backend_remoteAuthority :: "string option"

text \<open>
  The fields of \<open>TerminalService\<close> the modelled methods read or write, with the state of
  the two instance hosts it delegates to: the terminal group service (a list of groups,
  each a list of instances) and the terminal editor service (a list of instances).
  \<open>hostActiveTerminals\<close> is the map from the two hosts to their active terminal, as
  the pair of its values in insertion order (group service, editor service).
  \<open>pendingReconnections\<close> holds the reconnection promises whose \<open>then\<close> callback
  (\<open>_setConnected\<close>) has not run yet.
\<close>

record terminal_service =
  heap :: "instance_ref \<Rightarrow> instance_obj"
  nextRef :: nat
  groups :: "instance_ref list list"
  editorInstances :: "instance_ref list"
  backgroundedTerminalInstances :: "instance_ref list"
  backgroundedTerminalDisposables :: "nat set"
  reconnectedTerminals :: "string \<rightharpoonup> instance_ref list"
  connectionState :: TerminalConnectionState
  primaryBackend :: "terminal_backend option"
  pendingReconnections :: "reconnection list"
  detachListeners :: nat
  processSupportContextKey :: "bool option"
  terminalHasBeenCreated :: bool
  activeInstanceField :: "instance_ref option"
  hostActiveTerminals :: "instance_ref option \<times> instance_ref option"
  firedEvents :: "terminal_event list"
  notifications :: "string list"

text \<open>
  What the service takes from the services injected into it, none of which is among the
  sources: the \<open>TerminalInstance\<close> constructor (which derives the object's fields from
  the launch configuration, the location and the fresh instance id), the environment's
  remote authority, the settings \<open>enablePersistentSessions\<close> and \<open>defaultLocation\<close>,
  the profile service, \<open>getCwdForSplit\<close>, the contributed profile providers (a provider
  changes the service, by creating its terminal, and may fail with a message),
  whether the workspace is virtual or there is a remote connection, \<open>URI.from\<close>
  (which validates and normalises the components of a URI and throws on invalid ones,
  here \<open>None\<close>), and \<open>formatMessageForTerminal\<close> with the options the service
  passes to it.
\<close>

record 'p terminal_env =
  constructInstance :: "nat \<Rightarrow> shell_launch_config \<Rightarrow> TerminalLocation \<Rightarrow> instance_obj"
  env_remoteAuthority :: "string option"
  enablePersistentSessions :: bool
  defaultLocation :: TerminalLocation
  getDefaultProfile :: "'p option"
  convertProfileToShellLaunchConfig :: "'p option \<Rightarrow> shell_launch_config"
  getContributedDefaultProfile :: "shell_launch_config \<Rightarrow> contributed_profile option"
  getCwdForSplit :: "terminal_service \<Rightarrow> instance_ref \<Rightarrow> cwd_value option"
  getContributedProfileProvider :: "string \<Rightarrow> string \<Rightarrow>
    (contributed_options \<Rightarrow> terminal_service \<Rightarrow> string option \<times> terminal_service) option"
  virtualWorkspace :: bool
  remoteConnection :: bool
  uriFrom :: "uri_components \<Rightarrow> uri_components option"
  formatMessageForTerminal :: "string \<Rightarrow> string"

text \<open>
  The service as its field initialisers and constructor leave it; the process support
  context key is set to \<open>!isWeb || getConnection() !== null\<close>.
\<close>

definition initialService :: "(instance_ref \<Rightarrow> instance_obj) \<Rightarrow> bool \<Rightarrow> terminal_service" where
  "initialService h processSupported =
     \<lparr>heap = h, nextRef = 0, groups = [], editorInstances = [],
      backgroundedTerminalInstances = [], backgroundedTerminalDisposables = {},
      reconnectedTerminals = Map.empty, connectionState = Connecting,
      primaryBackend = None, pendingReconnections = [], detachListeners = 0,
      processSupportContextKey = Some processSupported, terminalHasBeenCreated = False,
      activeInstanceField = None, hostActiveTerminals = (None, None),
      firedEvents = [], notifications = []\<rparr>"

text \<open>JavaScript truthiness of a \<open>string | undefined\<close> and of a \<open>cwd\<close>.\<close>

definition truthy :: "string option \<Rightarrow> bool" where
  "truthy v = (case v of None \<Rightarrow> False | Some w \<Rightarrow> w \<noteq> [])"

definition truthyCwd :: "cwd_value option \<Rightarrow> bool" where
  "truthyCwd v = (case v of None \<Rightarrow> False | Some (CwdString w) \<Rightarrow> w \<noteq> [] | Some (CwdUri u) \<Rightarrow> True)"

subsection \<open>Getters\<close>

definition isProcessSupportRegistered :: "terminal_service \<Rightarrow> bool" where
  "isProcessSupportRegistered s = (processSupportContextKey s = Some True)"

text \<open>The instances of the group service are those of its groups, in order.\<close>

definition groupInstances :: "terminal_service \<Rightarrow> instance_ref list" where
  "groupInstances s = concat (groups s)"

definition instances :: "terminal_service \<Rightarrow> instance_ref list" where
  "instances s = groupInstances s @ editorInstances s"

definition getReconnectedTerminals :: "terminal_service \<Rightarrow> string \<Rightarrow> instance_ref list option" where
  "getReconnectedTerminals s reconnectionOwner = reconnectedTerminals s reconnectionOwner"

text \<open>
  \<open>activeInstance\<close>: the first host's active terminal that has focus, else the last
  recorded active terminal.
\<close>

definition focused :: "terminal_service \<Rightarrow> instance_ref option \<Rightarrow> bool" where
  "focused s a = (case a of None \<Rightarrow> False | Some i \<Rightarrow> hasFocus (heap s i))"

definition activeInstance :: "terminal_service \<Rightarrow> instance_ref option" where
  "activeInstance s =
     (if focused s (fst (hostActiveTerminals s)) then fst (hostActiveTerminals s)
      else if focused s (snd (hostActiveTerminals s)) then snd (hostActiveTerminals s)
      else activeInstanceField s)"

subsection \<open>Connection state\<close>

text \<open>Private methods \<open>_name\<close> of the source are named \<open>priv_name\<close>.\<close>

definition priv_setConnected :: "terminal_service \<Rightarrow> terminal_service" where
  "priv_setConnected s =
     s\<lparr>connectionState := Connected,
       firedEvents := firedEvents s @ [DidChangeConnectionState]\<rparr>"

text \<open>
  \<open>handleNewRegisteredBackend\<close>. Each branch starts a promise and chains
  \<open>_setConnected\<close> to it with \<open>then\<close>; the promise is recorded as pending, and the
  callback runs when it is fulfilled (\<open>reconnectionSettled\<close>). What a reconnection
  does to the service meanwhile (it recreates terminals through \<open>createTerminal\<close>)
  lies between the two steps; it never assigns the connection state. The listener for
  detach requests is only counted.
\<close>

definition handleNewRegisteredBackend ::
  "'p terminal_env \<Rightarrow> terminal_backend \<Rightarrow> terminal_service \<Rightarrow> terminal_service" where
  "handleNewRegisteredBackend env backend s =
     (if backend_remoteAuthority backend = env_remoteAuthority env then
        (let enableTerminalReconnection = enablePersistentSessions env;
             isPersistentRemote = (truthy (env_remoteAuthority env) \<and> enableTerminalReconnection);
             s1 = s\<lparr>primaryBackend := Some backend, connectionState := Connecting\<rparr>;
             s2 = (if isPersistentRemote then
                     s1\<lparr>pendingReconnections := pendingReconnections s1 @ [ReconnectRemote]\<rparr>
                   else if enableTerminalReconnection then
                     s1\<lparr>pendingReconnections := pendingReconnections s1 @ [ReconnectLocal]\<rparr>
                   else
                     s1\<lparr>pendingReconnections := pendingReconnections s1 @ [ReconnectNone]\<rparr>)
         in s2\<lparr>detachListeners := Suc (detachListeners s2)\<rparr>)
      else s)"

text \<open>
  The \<open>n\<close>-th pending reconnection promise settles: when it is fulfilled its \<open>then\<close>
  callback \<open>_setConnected\<close> runs, when it is rejected the callback is dropped.
  \<open>Promise.resolve()\<close> is always fulfilled. There is no such promise when \<open>n\<close> is out
  of range.
\<close>

definition reconnectionSettled :: "nat \<Rightarrow> bool \<Rightarrow> terminal_service \<Rightarrow> terminal_service option" where
  "reconnectionSettled n fulfilled s =
     (if n < length (pendingReconnections s) then
        (let s1 = s\<lparr>pendingReconnections :=
                      take n (pendingReconnections s) @ drop (Suc n) (pendingReconnections s)\<rparr>
         in if fulfilled \<or> pendingReconnections s ! n = ReconnectNone
            then Some (priv_setConnected s1) else Some s1)
      else None)"

text \<open>
  \<open>registerProcessSupport\<close>: only a support that is there is registered, and the
  event fired.
\<close>

definition registerProcessSupport :: "bool \<Rightarrow> terminal_service \<Rightarrow> terminal_service" where
  "registerProcessSupport isSupported s =
     (if \<not> isSupported then s
      else s\<lparr>processSupportContextKey := Some isSupported,
             firedEvents := firedEvents s @ [DidRegisterProcessSupport]\<rparr>)"

subsection \<open>The instance hosts\<close>

text \<open>\<open>ITerminalInstanceService.createInstance\<close>: a new object at a fresh reference.\<close>

definition createInstance ::
  "'p terminal_env \<Rightarrow> shell_launch_config \<Rightarrow> TerminalLocation \<Rightarrow> terminal_service
    \<Rightarrow> instance_ref \<times> terminal_service" where
  "createInstance env slc loc s =
     (let i = nextRef s in
      (i, s\<lparr>heap := (heap s)(i := constructInstance env i slc loc), nextRef := Suc i\<rparr>))"

text \<open>
  \<open>_evaluateActiveInstance\<close>, the listener the service attaches to both hosts' change
  of active instance: it records the host's active terminal, falls back to the last
  defined one of the hosts when the new one is undefined, and fires the change.
\<close>

definition priv_evaluateActiveInstance ::
  "bool \<Rightarrow> instance_ref option \<Rightarrow> terminal_service \<Rightarrow> terminal_service" where
  "priv_evaluateActiveInstance editorHost inst s =
     (let hs = (if editorHost then (fst (hostActiveTerminals s), inst)
                else (inst, snd (hostActiveTerminals s)));
          inst1 = (case inst of
                     Some i \<Rightarrow> Some i
                   | None \<Rightarrow> (case snd hs of Some a \<Rightarrow> Some a | None \<Rightarrow> fst hs))
      in s\<lparr>hostActiveTerminals := hs, activeInstanceField := inst1,
            firedEvents := firedEvents s @ [DidChangeActiveInstance inst1]\<rparr>)"

text \<open>
  Modelled from the spec: \<open>ITerminalGroupService\<close> and \<open>ITerminalEditorService\<close> are
  not among the sources. The group service holds "terminal groups" of instances and its
  \<open>instances\<close> are those of all groups in order; \<open>createGroup\<close> adds a group holding a
  new instance (or the given one), \<open>getGroupForInstance\<close> finds the group holding an
  instance, \<open>split\<close> adds a new instance to a group after its parent,
  \<open>setActiveInstanceByIndex\<close> makes the instance at an index in range the host's active
  one, which the service hears of through \<open>_evaluateActiveInstance\<close>. The editor service
  holds a list of instances; \<open>openEditor\<close> adds the instance unless it is there,
  \<open>splitInstance\<close> creates one and adds it.
\<close>

definition createGroupFromConfig ::
  "'p terminal_env \<Rightarrow> shell_launch_config \<Rightarrow> terminal_service
    \<Rightarrow> instance_ref list \<times> terminal_service" where
  "createGroupFromConfig env slc s =
     (case createInstance env slc Panel s of
        (i, s1) \<Rightarrow> ([i], s1\<lparr>groups := groups s1 @ [[i]]\<rparr>))"

definition createGroupFromInstance :: "instance_ref \<Rightarrow> terminal_service \<Rightarrow> terminal_service" where
  "createGroupFromInstance i s = s\<lparr>groups := groups s @ [[i]]\<rparr>"

fun findIndex :: "('a \<Rightarrow> bool) \<Rightarrow> 'a list \<Rightarrow> nat option" where
  "findIndex P [] = None"
| "findIndex P (x # xs) =
     (if P x then Some 0 else map_option Suc (findIndex P xs))"

definition getGroupForInstance :: "instance_ref \<Rightarrow> terminal_service \<Rightarrow> nat option" where
  "getGroupForInstance i s = findIndex (\<lambda>g. i \<in> set g) (groups s)"

fun insertAfter :: "'a \<Rightarrow> 'a \<Rightarrow> 'a list \<Rightarrow> 'a list" where
  "insertAfter p x [] = [x]"
| "insertAfter p x (y # ys) = (if y = p then y # x # ys else y # insertAfter p x ys)"

definition groupSplit ::
  "'p terminal_env \<Rightarrow> nat \<Rightarrow> instance_ref \<Rightarrow> shell_launch_config \<Rightarrow> terminal_service
    \<Rightarrow> instance_ref \<times> terminal_service" where
  "groupSplit env g parent slc s =
     (case createInstance env slc Panel s of
        (i, s1) \<Rightarrow> (i, s1\<lparr>groups := (groups s1)[g := insertAfter parent i (groups s1 ! g)]\<rparr>))"

definition setActiveInstanceByIndex :: "int \<Rightarrow> terminal_service \<Rightarrow> terminal_service" where
  "setActiveInstanceByIndex k s =
     (if 0 \<le> k \<and> nat k < length (groupInstances s)
      then priv_evaluateActiveInstance False (Some (groupInstances s ! nat k)) s
      else s)"

definition openEditor :: "instance_ref \<Rightarrow> terminal_service \<Rightarrow> terminal_service" where
  "openEditor i s =
     (if i \<in> set (editorInstances s) then s
      else s\<lparr>editorInstances := editorInstances s @ [i]\<rparr>)"

definition splitInstance ::
  "'p terminal_env \<Rightarrow> instance_ref \<Rightarrow> shell_launch_config \<Rightarrow> terminal_service
    \<Rightarrow> instance_ref \<times> terminal_service" where
  "splitInstance env parent slc s =
     (case createInstance env slc Editor s of
        (i, s1) \<Rightarrow> (i, s1\<lparr>editorInstances := editorInstances s1 @ [i]\<rparr>))"

subsection \<open>Creating and splitting terminals\<close>

definition priv_addToReconnected :: "instance_ref \<Rightarrow> terminal_service \<Rightarrow> terminal_service" where
  "priv_addToReconnected i s =
     (case reconnectionProperties (heap s i) of
        None \<Rightarrow> s
      | Some rp \<Rightarrow>
          (case reconnectedTerminals s (ownerId rp) of
             Some ts \<Rightarrow> s\<lparr>reconnectedTerminals := (reconnectedTerminals s)(ownerId rp \<mapsto> ts @ [i])\<rparr>
           | None \<Rightarrow> s\<lparr>reconnectedTerminals := (reconnectedTerminals s)(ownerId rp \<mapsto> [i])\<rparr>))"

text \<open>
  \<open>_createTerminal\<close>. The editor options (\<open>_getEditorOptions\<close>) only choose the editor
  group the terminal editor opens in, which the model of the editor service does not
  distinguish.
\<close>

definition priv_createTerminal ::
  "'p terminal_env \<Rightarrow> shell_launch_config \<Rightarrow> TerminalLocation \<Rightarrow> terminal_service
    \<Rightarrow> instance_ref \<times> terminal_service" where
  "priv_createTerminal env slc loc s =
     (if loc = Editor then
        (case createInstance env slc Editor s of
           (i, s1) \<Rightarrow> (i, priv_addToReconnected i (openEditor i s1)))
      else
        (case createGroupFromConfig env slc s of
           (g, s1) \<Rightarrow> (hd g, priv_addToReconnected (hd g) s1)))"

text \<open>
  \<open>_splitTerminal\<close>. The launch configuration takes the parent's URI when its own
  \<open>cwd\<close> is not a URI and the parent's is; a falsy own \<open>cwd\<close> (undefined or the empty
  string) gives the parent's path. The URI is built by \<open>URI.from\<close>, which may throw.
  A throw leaves the service as it is.
\<close>

definition splitCwd ::
  "'p terminal_env \<Rightarrow> shell_launch_config \<Rightarrow> shell_launch_config \<Rightarrow> shell_launch_config option" where
  "splitCwd env slc parentSlc =
     (case (cwd slc, cwd parentSlc) of
        (Some (CwdUri u), _) \<Rightarrow> Some slc
      | (c, Some (CwdUri p)) \<Rightarrow>
          (case uriFrom env \<lparr>scheme = scheme p, authority = authority p,
                  path = (case c of Some (CwdString w) \<Rightarrow> (if w = [] then path p else w)
                          | _ \<Rightarrow> path p)\<rparr> of
             None \<Rightarrow> None
           | Some u \<Rightarrow> Some (slc\<lparr>cwd := Some (CwdUri u)\<rparr>))
      | _ \<Rightarrow> Some slc)"

definition priv_splitTerminal ::
  "'p terminal_env \<Rightarrow> shell_launch_config \<Rightarrow> TerminalLocation \<Rightarrow> instance_ref \<Rightarrow> terminal_service
    \<Rightarrow> (terminal_error + instance_ref) \<times> terminal_service" where
  "priv_splitTerminal env slc0 loc parent s =
     (case splitCwd env slc0 (shellLaunchConfig (heap s parent)) of
        None \<Rightarrow> (Inl UriError, s)
      | Some slc \<Rightarrow>
          if loc = Editor \<or> target (heap s parent) = Some Editor then
            (case splitInstance env parent slc s of
               (i, s1) \<Rightarrow> (Inr i, priv_addToReconnected i s1))
          else
            (case getGroupForInstance parent s of
               None \<Rightarrow> (Inl CannotSplitWithoutGroup, s)
             | Some g \<Rightarrow>
                 (case groupSplit env g parent
                         (slc\<lparr>parentTerminalId := Some (instanceId (heap s parent))\<rparr>) s of
                    (i, s1) \<Rightarrow> (Inr i, priv_addToReconnected i s1))))"

text \<open>
  \<open>resolveLocation\<close>: a parent's or the recorded active instance's target, the panel
  when that target is undefined; the editor for a view column; a plain location as it is.
\<close>

definition resolveLocation :: "location_options option \<Rightarrow> terminal_service \<Rightarrow> TerminalLocation option" where
  "resolveLocation location s =
     (case location of
        Some (ParentTerminal p) \<Rightarrow>
          (case target (heap s p) of None \<Rightarrow> Some Panel | Some t \<Rightarrow> Some t)
      | Some (ViewColumn c) \<Rightarrow> Some Editor
      | Some (SplitActiveTerminal b) \<Rightarrow>
          (case activeInstanceField s of
             None \<Rightarrow> Some Panel
           | Some a \<Rightarrow> (case target (heap s a) of None \<Rightarrow> Some Panel | Some t \<Rightarrow> Some t))
      | Some (Loc l) \<Rightarrow> Some l
      | None \<Rightarrow> None)"

definition priv_getSplitParent :: "location_options option \<Rightarrow> terminal_service \<Rightarrow> instance_ref option" where
  "priv_getSplitParent location s =
     (case location of
        Some (ParentTerminal p) \<Rightarrow> Some p
      | Some (SplitActiveTerminal b) \<Rightarrow> activeInstance s
      | _ \<Rightarrow> None)"

text \<open>
  \<open>_evaluateLocalCwd\<close>: a local terminal (a URI \<open>cwd\<close> of scheme \<open>file\<close>) in a
  virtual or remote workspace gets a welcome message and the type \<open>Local\<close>. The
  messages set "local" in italics with the escape sequences \<open>ESC [3m\<close> and
  \<open>ESC [23m\<close> and are formatted by \<open>formatMessageForTerminal\<close>.
\<close>

definition localTerminalVirtualWorkspace :: string where
  "localTerminalVirtualWorkspace =
     ''This shell is open to a '' @ CHR 0x1B # ''[3m'' @ ''local'' @ CHR 0x1B # ''[23m'' @
     '' folder, NOT to the virtual folder''"

definition localTerminalRemote :: string where
  "localTerminalRemote =
     ''This shell is running on your '' @ CHR 0x1B # ''[3m'' @ ''local'' @ CHR 0x1B # ''[23m'' @
     '' machine, NOT on the connected remote machine''"

definition priv_evaluateLocalCwd :: "'p terminal_env \<Rightarrow> shell_launch_config \<Rightarrow> shell_launch_config" where
  "priv_evaluateLocalCwd env slc =
     (case cwd slc of
        Some (CwdUri u) \<Rightarrow>
          (if scheme u = ''file'' then
             (if virtualWorkspace env then
                slc\<lparr>initialText := Some (formatMessageForTerminal env localTerminalVirtualWorkspace),
                    slc_type := Some ''Local''\<rparr>
              else if remoteConnection env then
                slc\<lparr>initialText := Some (formatMessageForTerminal env localTerminalRemote),
                    slc_type := Some ''Local''\<rparr>
              else slc)
           else slc)
      | _ \<Rightarrow> slc)"

text \<open>
  \<open>_resolveCwd\<close>: when the launch configuration has no \<open>cwd\<close>, the options'
  \<open>cwd\<close>, or for a split with a location the \<open>cwd\<close> of the parent (the given parent
  terminal, else the active instance); it throws when there is no parent.
\<close>

definition priv_resolveCwd ::
  "'p terminal_env \<Rightarrow> shell_launch_config \<Rightarrow> bool \<Rightarrow> 'p create_options option \<Rightarrow> terminal_service
    \<Rightarrow> terminal_error + shell_launch_config" where
  "priv_resolveCwd env slc splitActiveTerminal options s =
     (if \<not> truthyCwd (cwd slc) then
        (case options of
           None \<Rightarrow> Inr slc
         | Some opts \<Rightarrow>
             (if truthyCwd (opt_cwd opts) then Inr (slc\<lparr>cwd := opt_cwd opts\<rparr>)
              else if splitActiveTerminal \<and> opt_location opts \<noteq> None then
                (let parent = (case opt_location opts of
                                 Some (ParentTerminal p) \<Rightarrow> Some p
                               | _ \<Rightarrow> activeInstance s)
                 in case parent of
                      None \<Rightarrow> Inl CannotSplitWithoutActiveInstance
                    | Some p \<Rightarrow> Inr (slc\<lparr>cwd := getCwdForSplit env s p\<rparr>))
              else Inr slc))
      else Inr slc)"

text \<open>
  \<open>createContributedTerminalProfile\<close>: an error notification when no provider is
  registered; otherwise the provider runs, the last group instance becomes active, and a
  failure of the provider is notified.
\<close>

definition createContributedTerminalProfile ::
  "'p terminal_env \<Rightarrow> string \<Rightarrow> string \<Rightarrow> contributed_options \<Rightarrow> terminal_service
    \<Rightarrow> terminal_service" where
  "createContributedTerminalProfile env ext ident options s =
     (case getContributedProfileProvider env ext ident of
        None \<Rightarrow>
          s\<lparr>notifications := notifications s @
               [''No terminal profile provider registered for id \"'' @ ident @ ''\"'']\<rparr>
      | Some profileProvider \<Rightarrow>
          (case profileProvider options s of
             (Some message, s1) \<Rightarrow> s1\<lparr>notifications := notifications s1 @ [message]\<rparr>
           | (None, s1) \<Rightarrow>
               setActiveInstanceByIndex (int (length (groupInstances s1)) - 1) s1))"

text \<open>The steps of \<open>createTerminal\<close> before the terminal is launched.\<close>

definition configOf :: "'p terminal_env \<Rightarrow> 'p create_options option \<Rightarrow> 'p terminal_config option" where
  "configOf env options =
     (case options of
        Some opts \<Rightarrow>
          (case opt_config opts of
             Some c \<Rightarrow> Some c
           | None \<Rightarrow> map_option Profile (getDefaultProfile env))
      | None \<Rightarrow> map_option Profile (getDefaultProfile env))"

definition shellLaunchConfigOf :: "'p terminal_env \<Rightarrow> 'p create_options option \<Rightarrow> shell_launch_config" where
  "shellLaunchConfigOf env options =
     (case configOf env options of
        Some (ExtensionProfile c) \<Rightarrow> emptyShellLaunchConfig
      | Some (Profile p) \<Rightarrow> convertProfileToShellLaunchConfig env (Some p)
      | None \<Rightarrow> convertProfileToShellLaunchConfig env None)"

definition contributedProfileOf :: "'p terminal_env \<Rightarrow> 'p create_options option \<Rightarrow> contributed_profile option" where
  "contributedProfileOf env options =
     (case configOf env options of
        Some (ExtensionProfile c) \<Rightarrow> Some c
      | _ \<Rightarrow>
          (if (case options of None \<Rightarrow> True | Some opts \<Rightarrow> opt_config opts = None)
           then getContributedDefaultProfile env (shellLaunchConfigOf env options)
           else None))"

definition optionsLocation :: "'p create_options option \<Rightarrow> location_options option" where
  "optionsLocation options = (case options of None \<Rightarrow> None | Some opts \<Rightarrow> opt_location opts)"

definition splitActiveTerminalOf :: "'p create_options option \<Rightarrow> bool" where
  "splitActiveTerminalOf options =
     (case optionsLocation options of
        Some (SplitActiveTerminal b) \<Rightarrow> b
      | Some (ParentTerminal p) \<Rightarrow> True
      | _ \<Rightarrow> False)"

text \<open>
  The contributed branch of \<open>createTerminal\<close>: the profile's terminal is created by its
  provider, and the instance returned is the last one of the host of the resolved
  location; reading it from a host without instances gives \<open>undefined\<close>, on which
  \<open>focusWhenReady\<close> throws.
\<close>

definition SIDE_GROUP :: int where
  "SIDE_GROUP = - 2"

definition launchContributed ::
  "'p terminal_env \<Rightarrow> contributed_profile \<Rightarrow> bool \<Rightarrow> 'p create_options option \<Rightarrow> terminal_service
    \<Rightarrow> (terminal_error + instance_ref) \<times> terminal_service" where
  "launchContributed env contributedProfile splitActiveTerminal options s =
     (let resolvedLocation = resolveLocation (optionsLocation options) s;
          location =
            (if splitActiveTerminal then
               (if resolvedLocation = Some Editor then Some (ViewColumn SIDE_GROUP)
                else Some (SplitActiveTerminal True))
             else (case optionsLocation options of
                     Some (ViewColumn c) \<Rightarrow> Some (ViewColumn c)
                   | _ \<Rightarrow> map_option Loc resolvedLocation));
          s1 = createContributedTerminalProfile env (extensionIdentifier contributedProfile)
                 (profile_id contributedProfile)
                 \<lparr>co_icon = icon contributedProfile, co_color = color contributedProfile,
                  co_location = location\<rparr> s;
          hostInstances = (if resolvedLocation = Some Editor then editorInstances s1
                           else groupInstances s1)
      in if hostInstances = [] then (Inl UndefinedInstance, s1)
         else (Inr (last hostInstances), s1\<lparr>terminalHasBeenCreated := True\<rparr>))"

text \<open>
  \<open>createTerminal\<close>. Waiting for the profiles to be ready changes nothing the model
  holds. The result is the thrown error or the instance, with the service as the call
  leaves it.
\<close>

definition createTerminal ::
  "'p terminal_env \<Rightarrow> 'p create_options option \<Rightarrow> terminal_service
    \<Rightarrow> (terminal_error + instance_ref) \<times> terminal_service" where
  "createTerminal env options s =
     (let contributedProfile = contributedProfileOf env options;
          splitActiveTerminal = splitActiveTerminalOf options
      in case priv_resolveCwd env (shellLaunchConfigOf env options) splitActiveTerminal options s of
           Inl e \<Rightarrow> (Inl e, s)
         | Inr slc1 \<Rightarrow>
             (case contributedProfile of
                Some c \<Rightarrow> launchContributed env c splitActiveTerminal options s
              | None \<Rightarrow>
                  if \<not> customPtyImplementation slc1 \<and> \<not> isProcessSupportRegistered s
                  then (Inl ProcessSupportNotRegistered, s)
                  else if hideFromUser slc1 then
                    (case createInstance env slc1 Panel s of
                       (i, s1) \<Rightarrow>
                         (Inr i,
                          s1\<lparr>backgroundedTerminalInstances := backgroundedTerminalInstances s1 @ [i],
                             backgroundedTerminalDisposables :=
                               insert (instanceId (heap s1 i)) (backgroundedTerminalDisposables s1),
                             terminalHasBeenCreated := True\<rparr>))
                  else
                    (let slc = priv_evaluateLocalCwd env slc1;
                         location = (case resolveLocation (optionsLocation options) s of
                                       Some l \<Rightarrow> l
                                     | None \<Rightarrow> defaultLocation env);
                         parent = priv_getSplitParent (optionsLocation options) s;
                         s1 = s\<lparr>terminalHasBeenCreated := True\<rparr>
                     in case parent of
                          Some p \<Rightarrow> priv_splitTerminal env slc location p s1
                        | None \<Rightarrow>
                            (case priv_createTerminal env slc location s1 of
                               (i, s2) \<Rightarrow> (Inr i, s2)))))"

subsection \<open>Background terminals\<close>

text \<open>
  \<open>splice(indexOf(x), 1)\<close> on an array: it removes the first occurrence of \<open>x\<close>, and
  when there is none, \<open>indexOf\<close> is \<open>-1\<close> and \<open>splice\<close> removes the last element.
\<close>

definition spliceIndexOf :: "'a \<Rightarrow> 'a list \<Rightarrow> 'a list" where
  "spliceIndexOf x xs =
     (case findIndex (\<lambda>y. y = x) xs of
        Some k \<Rightarrow> take k xs @ drop (Suc k) xs
      | None \<Rightarrow> butlast xs)"

definition priv_showBackgroundTerminal :: "instance_ref \<Rightarrow> terminal_service \<Rightarrow> terminal_service" where
  "priv_showBackgroundTerminal i s =
     (let s1 = s\<lparr>backgroundedTerminalInstances := spliceIndexOf i (backgroundedTerminalInstances s),
                 backgroundedTerminalDisposables :=
                   backgroundedTerminalDisposables s - {instanceId (heap s i)},
                 heap := (heap s)(i := (heap s i)\<lparr>shellLaunchConfig :=
                           (shellLaunchConfig (heap s i))\<lparr>hideFromUser := False\<rparr>\<rparr>)\<rparr>;
          s2 = createGroupFromInstance i s1;
          s3 = (if length (instances s2) = 1 then setActiveInstanceByIndex 0 s2 else s2)
      in s3\<lparr>firedEvents := firedEvents s3 @ [DidChangeInstances, DidChangeGroups]\<rparr>)"

text \<open>
  \<open>setActiveInstance\<close>: a terminal hidden from the user is shown first; the host of the
  terminal's target then makes it its active instance, which the service hears of
  through \<open>_evaluateActiveInstance\<close>.
\<close>

definition setActiveInstance :: "instance_ref \<Rightarrow> terminal_service \<Rightarrow> terminal_service" where
  "setActiveInstance v s =
     (let s1 = (if hideFromUser (shellLaunchConfig (heap s v))
                then priv_showBackgroundTerminal v s else s)
      in priv_evaluateActiveInstance (target (heap s1 v) = Some Editor) (Some v) s1)"

text \<open>
  A sequence of creations through \<open>_createTerminal\<close> and \<open>_splitTerminal\<close>, with
  the instances created, in order. A split that throws creates nothing.
\<close>

datatype creation =
    CreateTerminal shell_launch_config TerminalLocation
  | SplitTerminal shell_launch_config TerminalLocation instance_ref

fun createAll ::
  "'p terminal_env \<Rightarrow> creation list \<Rightarrow> terminal_service \<Rightarrow> instance_ref list \<times> terminal_service" where
  "createAll env [] s = ([], s)"
| "createAll env (CreateTerminal slc loc # cs) s =
     (case priv_createTerminal env slc loc s of
        (i, s1) \<Rightarrow> (case createAll env cs s1 of (js, s2) \<Rightarrow> (i # js, s2)))"
| "createAll env (SplitTerminal slc loc parent # cs) s =
     (case priv_splitTerminal env slc loc parent s of
        (Inl e, s1) \<Rightarrow> createAll env cs s1
      | (Inr i, s1) \<Rightarrow> (case createAll env cs s1 of (js, s2) \<Rightarrow> (i # js, s2)))"

text \<open>
  A sequence of calls of \<open>createTerminal\<close> and \<open>_showBackgroundTerminal\<close>.
\<close>

datatype 'p service_call =
    CallCreateTerminal "'p create_options option"
  | CallShowBackgroundTerminal instance_ref

fun runCalls :: "'p terminal_env \<Rightarrow> 'p service_call list \<Rightarrow> terminal_service \<Rightarrow> terminal_service" where
  "runCalls env [] s = s"
| "runCalls env (CallCreateTerminal options # cs) s =
     runCalls env cs (snd (createTerminal env options s))"
| "runCalls env (CallShowBackgroundTerminal j # cs) s =
     runCalls env cs (priv_showBackgroundTerminal j s)"

text \<open>The instances of a list whose reconnection properties name the owner.\<close>

definition ownedBy :: "(instance_ref \<Rightarrow> instance_obj) \<Rightarrow> string \<Rightarrow> instance_ref list \<Rightarrow> instance_ref list" where
  "ownedBy h owner xs =
     filter (\<lambda>i. case reconnectionProperties (h i) of None \<Rightarrow> False
                   | Some rp \<Rightarrow> ownerId rp = owner) xs"

section \<open>Edit sessions (editSessions.contribution.ts)\<close>

subsection \<open>Data model\<close>

text \<open>
  \<open>ChangeType\<close> has the members \<open>Addition\<close> and \<open>Deletion\<close>; an edit session read
  from the cloud may hold any other number, which the code handles in a \<open>default\<close>
  branch.
\<close>

datatype ChangeType = Addition | Deletion | UnknownChangeType int

datatype FileType = File

record change =
  relativeFilePath :: string
  fileType :: FileType
  change_type :: ChangeType
  contents :: "string option"

record folder =
  name :: string
  canonicalIdentity :: "string option"
  workingChanges :: "change list"

record edit_session =
  version :: int
  folders :: "folder list"

datatype WorkbenchState = EMPTY | FOLDER | WORKSPACE

datatype EditSessionIdentityMatch = Complete | Partial | NoMatch

text \<open>
  A value of the type \<open>'uri\<close> is a URI object, that is a reference: equality on
  \<open>'uri\<close> is the identity of objects, which is what \<open>Set<URI>\<close> compares. Two URI
  objects may denote the same URI; then the services answer alike for both, and
  \<open>uriToString\<close> gives the same text. A workspace folder has a URI and a name; an SCM
  repository has a provider with an optional root URI and resource groups, each a list of
  resources of which the source URI (an object of its own for every resource) matters.
\<close>

record 'uri workspace_folder =
  wf_uri :: 'uri
  wf_name :: string

record 'uri scm_repository =
  rootUri :: "'uri option"
  resourceGroups :: "'uri list list"

text \<open>A change with its target URI, as \<open>generateChanges\<close> returns it.\<close>

type_synonym 'uri target_change = "'uri \<times> ChangeType \<times> string option"

datatype write_failure = TooLarge | OtherStoreError | OtherFailure

datatype es_error = UnhandledChangeType | FileOperationFailed | DecodeFailed | StorageFailed

text \<open>
  The calls with an effect outside the contribution that the modelled methods make, in
  the order they are made. Logging, telemetry, performance marks and progress reports
  are left out.
\<close>

datatype 'uri effect =
    SaveAll
  | WillCreateEditSessionIdentity "'uri workspace_folder"
  | StorageInitialize
  | StorageRead "string option"
  | StorageWrite edit_session
  | StorageDelete string
  | WriteFile 'uri string
  | Del 'uri
  | NotifyInfo string
  | NotifyWarn string
  | NotifyError string
  | PromptResume string
  | ConfirmOverwrite "'uri list"

text \<open>
  The services injected into the contribution and the functions it imports, none of
  which is among the sources. The file system is a state of an arbitrary type \<open>'fs\<close>
  on which the file service works: \<open>stat\<close> gives \<open>isFile\<close>, \<open>readFile\<close> the
  contents, \<open>writeFile\<close> and \<open>del\<close> a new state, and \<open>None\<close> stands for a
  rejected promise. The storage service answers \<open>read\<close> with a reference and an edit
  session, \<open>write\<close> with a reference or a failure, and \<open>delete\<close> with success or
  failure. \<open>dialogConfirm\<close> is the user's answer to the confirmation dialog.
\<close>

record ('uri, 'fs) es_env =
  getWorkbenchState :: WorkbenchState
  workspaceFolders :: "'uri workspace_folder list"
  getWorkspaceFolder :: "'uri \<Rightarrow> 'uri workspace_folder option"
  repositories :: "'uri scm_repository list"
  relativePath :: "'uri \<Rightarrow> 'uri \<Rightarrow> string option"
  uriPath :: "'uri \<Rightarrow> string"
  uriToString :: "'uri \<Rightarrow> string"
  joinPath :: "'uri \<Rightarrow> string \<Rightarrow> 'uri"
  fs_stat :: "'fs \<Rightarrow> 'uri \<Rightarrow> bool option"
  fs_exists :: "'fs \<Rightarrow> 'uri \<Rightarrow> bool"
  fs_readFile :: "'fs \<Rightarrow> 'uri \<Rightarrow> string option"
  fs_writeFile :: "'fs \<Rightarrow> 'uri \<Rightarrow> string \<Rightarrow> 'fs option"
  fs_del :: "'fs \<Rightarrow> 'uri \<Rightarrow> 'fs option"
  saveAll :: "'fs \<Rightarrow> 'fs"
  encodeBase64 :: "string \<Rightarrow> string"
  sha1Hex :: "string option \<Rightarrow> string"
  decodeEditSessionFileContent :: "int \<Rightarrow> string option \<Rightarrow> string option"
  EditSessionSchemaVersion :: int
  getEditSessionIdentifier :: "'uri workspace_folder \<Rightarrow> string option"
  provideEditSessionIdentityMatch ::
    "'uri workspace_folder \<Rightarrow> string \<Rightarrow> string \<Rightarrow> EditSessionIdentityMatch option"
  partialMatchesEnabled :: bool
  storageInitialize :: bool
  storageRead :: "string option \<Rightarrow> (string \<times> edit_session) option"
  storageWrite :: "edit_session \<Rightarrow> write_failure + string"
  storageDelete :: "string \<Rightarrow> bool"
  dialogConfirm :: bool
  nameLong :: string

subsection \<open>Changed resources\<close>

text \<open>
  \<open>getChangedResources\<close>: the source URIs of all resources of all groups, added to a
  \<open>Set<URI>\<close>, which keeps the first occurrence of each object and iterates in
  insertion order. The set compares URI objects, not their texts: the same URI held by
  two objects is in it twice. (The local changes of \<open>generateChanges\<close> are a
  \<open>Set<string>\<close> of the texts instead.)
\<close>

definition setAdd :: "'a list \<Rightarrow> 'a \<Rightarrow> 'a list" where
  "setAdd resources x = (if x \<in> set resources then resources else resources @ [x])"

definition getChangedResources :: "'uri scm_repository \<Rightarrow> 'uri list" where
  "getChangedResources repository =
     foldl (\<lambda>resources resourceGroup. foldl setAdd resources resourceGroup) []
       (resourceGroups repository)"

subsection \<open>Storing an edit session\<close>

text \<open>
  The loop of \<open>storeEditSession\<close> over the tracked URIs of one repository. Its state
  is the folder name found so far, \<open>hasEdits\<close>, the working changes and the effects;
  a rejected \<open>readFile\<close> ends it with an error, which is returned with the state
  reached.
\<close>

record 'uri store_loop =
  sl_name :: "string option"
  hasEdits :: bool
  sl_workingChanges :: "change list"
  sl_effects :: "'uri effect list"

fun storeTrackedUris ::
  "('uri, 'fs) es_env \<Rightarrow> 'fs \<Rightarrow> 'uri list \<Rightarrow> 'uri store_loop
    \<Rightarrow> es_error option \<times> 'uri store_loop" where
  "storeTrackedUris env fs [] st = (None, st)"
| "storeTrackedUris env fs (uri # uris) st =
     (case getWorkspaceFolder env uri of
        None \<Rightarrow> storeTrackedUris env fs uris st
      | Some workspaceFolder \<Rightarrow>
          (let st1 = st\<lparr>sl_effects := sl_effects st @ [WillCreateEditSessionIdentity workspaceFolder],
                        sl_name := (case sl_name st of Some n \<Rightarrow> Some n
                                    | None \<Rightarrow> Some (wf_name workspaceFolder))\<rparr>;
               relativeFilePath1 = (case relativePath env (wf_uri workspaceFolder) uri of
                                      Some p \<Rightarrow> p | None \<Rightarrow> uriPath env uri)
           in if fs_stat env fs uri = Some False then storeTrackedUris env fs uris st1
              else if fs_exists env fs uri then
                (case fs_readFile env fs uri of
                   None \<Rightarrow> (Some FileOperationFailed, st1\<lparr>hasEdits := True\<rparr>)
                 | Some v \<Rightarrow>
                     storeTrackedUris env fs uris
                       (st1\<lparr>hasEdits := True,
                            sl_workingChanges := sl_workingChanges st1 @
                              [\<lparr>relativeFilePath = relativeFilePath1, fileType = File,
                                change_type = Addition,
                                contents = Some (encodeBase64 env v)\<rparr>]\<rparr>))
              else
                storeTrackedUris env fs uris
                  (st1\<lparr>hasEdits := True,
                       sl_workingChanges := sl_workingChanges st1 @
                         [\<lparr>relativeFilePath = relativeFilePath1, fileType = File,
                           change_type = Deletion, contents = None\<rparr>]\<rparr>)))"

text \<open>
  The loop over the repositories: each one gives a folder, named after the workspace
  folder of its root URI, else after the workspace folder of its first tracked URI that
  has one, else with the empty name.
\<close>

fun storeRepositories ::
  "('uri, 'fs) es_env \<Rightarrow> 'fs \<Rightarrow> 'uri scm_repository list \<Rightarrow> folder list \<Rightarrow> bool \<Rightarrow>
    'uri effect list \<Rightarrow> es_error option \<times> folder list \<times> bool \<times> 'uri effect list" where
  "storeRepositories env fs [] folders1 hasEdits1 effs = (None, folders1, hasEdits1, effs)"
| "storeRepositories env fs (repository # rest) folders1 hasEdits1 effs =
     (let trackedUris = getChangedResources repository;
          workspaceFolder = (case rootUri repository of
                               Some r \<Rightarrow> getWorkspaceFolder env r | None \<Rightarrow> None)
      in case storeTrackedUris env fs trackedUris
                \<lparr>sl_name = map_option wf_name workspaceFolder, hasEdits = hasEdits1,
                 sl_workingChanges = [], sl_effects = effs\<rparr> of
           (Some e, st) \<Rightarrow> (Some e, folders1, hasEdits st, sl_effects st)
         | (None, st) \<Rightarrow>
             storeRepositories env fs rest
               (folders1 @
                  [\<lparr>name = (case sl_name st of Some n \<Rightarrow> n | None \<Rightarrow> []),
                    canonicalIdentity = (case workspaceFolder of
                                           Some w \<Rightarrow> getEditSessionIdentifier env w
                                         | None \<Rightarrow> None),
                    workingChanges = sl_workingChanges st\<rparr>])
               (hasEdits st) (sl_effects st))"

text \<open>
  \<open>storeEditSession\<close>: the result is the error a rejected file read propagates, or the
  returned reference or \<open>undefined\<close>, with the effects of the call.
\<close>

definition storeEditSession ::
  "('uri, 'fs) es_env \<Rightarrow> bool \<Rightarrow> 'fs \<Rightarrow> (es_error + string option) \<times> 'uri effect list" where
  "storeEditSession env fromStoreCommand fs0 =
     (let fs = saveAll env fs0 in
      case storeRepositories env fs (repositories env) [] False [SaveAll] of
        (Some e, folders1, hasEdits1, effs) \<Rightarrow> (Inl e, effs)
      | (None, folders1, hasEdits1, effs) \<Rightarrow>
          if \<not> hasEdits1 then
            (Inr None,
             if fromStoreCommand
             then effs @ [NotifyInfo ''Skipped storing working changes in the cloud as there are no edits to store.'']
             else effs)
          else
            (let data = \<lparr>version = 2, folders = folders1\<rparr> in
             case storageWrite env data of
               Inr ref \<Rightarrow> (Inr (Some ref), effs @ [StorageWrite data])
             | Inl TooLarge \<Rightarrow>
                 (Inr None, effs @ [StorageWrite data,
                    NotifyError ''Your working changes exceed the size limit and cannot be stored.''])
             | Inl OtherStoreError \<Rightarrow>
                 (Inr None, effs @ [StorageWrite data,
                    NotifyError ''Your working changes cannot be stored.''])
             | Inl OtherFailure \<Rightarrow> (Inr None, effs @ [StorageWrite data])))"

subsection \<open>Resuming an edit session\<close>

text \<open>
  \<open>willChangeLocalContents\<close>: no conflict for a URI that is not among the local
  changes; for an addition, whether the hashes of the stored and of the encoded local
  contents differ (a rejected \<open>readFile\<close> propagates); for a deletion, whether the
  local file exists; an error for any other type.
\<close>

definition willChangeLocalContents ::
  "('uri, 'fs) es_env \<Rightarrow> 'fs \<Rightarrow> string list \<Rightarrow> 'uri \<Rightarrow> change \<Rightarrow> es_error + bool" where
  "willChangeLocalContents env fs localChanges uriWithIncomingChanges incomingChange =
     (if uriToString env uriWithIncomingChanges \<notin> set localChanges then Inr False
      else
        (case change_type incomingChange of
           Addition \<Rightarrow>
             (case fs_readFile env fs uriWithIncomingChanges of
                None \<Rightarrow> Inl FileOperationFailed
              | Some v \<Rightarrow>
                  Inr (sha1Hex env (contents incomingChange) \<noteq>
                       sha1Hex env (Some (encodeBase64 env v))))
         | Deletion \<Rightarrow> Inr (fs_exists env fs uriWithIncomingChanges)
         | UnknownChangeType n \<Rightarrow> Inl UnhandledChangeType))"

text \<open>
  The search of \<open>generateChanges\<close> for the workspace folder of a session folder that
  has a canonical identity. A partial match that is enabled but not forced shows a prompt
  and the search goes on.
\<close>

fun findByIdentity ::
  "('uri, 'fs) es_env \<Rightarrow> string \<Rightarrow> bool \<Rightarrow> string \<Rightarrow> 'uri workspace_folder list
    \<Rightarrow> 'uri workspace_folder option \<times> 'uri effect list" where
  "findByIdentity env ref force ci [] = (None, [])"
| "findByIdentity env ref force ci (f # fs) =
     (case getEditSessionIdentifier env f of
        None \<Rightarrow> findByIdentity env ref force ci fs
      | Some identity \<Rightarrow>
          if identity = ci then (Some f, [])
          else
            (case provideEditSessionIdentityMatch env f identity ci of
               Some Complete \<Rightarrow> (Some f, [])
             | Some Partial \<Rightarrow>
                 if partialMatchesEnabled env then
                   (if \<not> force then
                      (case findByIdentity env ref force ci fs of
                         (r, effs) \<Rightarrow> (r, PromptResume ref # effs))
                    else (Some f, []))
                 else findByIdentity env ref force ci fs
             | _ \<Rightarrow> findByIdentity env ref force ci fs))"

text \<open>
  The folder root of a session folder: by identity when the folder has a truthy
  \<open>canonicalIdentity\<close> (defined and not the empty string), else the first workspace
  folder of the same name.
\<close>

definition folderRoot ::
  "('uri, 'fs) es_env \<Rightarrow> string \<Rightarrow> bool \<Rightarrow> folder
    \<Rightarrow> 'uri workspace_folder option \<times> 'uri effect list" where
  "folderRoot env ref force folder1 =
     (case canonicalIdentity folder1 of
        Some ci \<Rightarrow>
          if ci \<noteq> [] then findByIdentity env ref force ci (workspaceFolders env)
          else (find (\<lambda>f. wf_name f = name folder1) (workspaceFolders env), [])
      | None \<Rightarrow> (find (\<lambda>f. wf_name f = name folder1) (workspaceFolders env), []))"

text \<open>
  The local changes for a session folder: the changed resources, as strings, of the
  repositories whose root URI lies in a workspace folder of the session folder's name.
\<close>

definition localChangesOf :: "('uri, 'fs) es_env \<Rightarrow> folder \<Rightarrow> string list" where
  "localChangesOf env folder1 =
     concat (map (\<lambda>repository.
        (case rootUri repository of
           None \<Rightarrow> []
         | Some r \<Rightarrow>
             (case getWorkspaceFolder env r of
                None \<Rightarrow> []
              | Some w \<Rightarrow>
                  if wf_name w = name folder1
                  then map (uriToString env) (getChangedResources repository)
                  else [])))
       (repositories env))"

text \<open>
  The loop over the working changes of a folder: every change is pushed with its target
  URI, and pushed as conflicting when it will change local contents.
\<close>

fun collectChanges ::
  "('uri, 'fs) es_env \<Rightarrow> 'fs \<Rightarrow> string list \<Rightarrow> 'uri \<Rightarrow> change list \<Rightarrow>
    'uri target_change list \<times> 'uri target_change list \<Rightarrow>
    es_error + 'uri target_change list \<times> 'uri target_change list" where
  "collectChanges env fs localChanges root [] acc = Inr acc"
| "collectChanges env fs localChanges root (c # cs) (changes, conflictingChanges) =
     (let uri = joinPath env root (relativeFilePath c);
          changes1 = changes @ [(uri, change_type c, contents c)]
      in case willChangeLocalContents env fs localChanges uri c of
           Inl e \<Rightarrow> Inl e
         | Inr True \<Rightarrow>
             collectChanges env fs localChanges root cs
               (changes1, conflictingChanges @ [(uri, change_type c, contents c)])
         | Inr False \<Rightarrow>
             collectChanges env fs localChanges root cs (changes1, conflictingChanges))"

text \<open>
  \<open>generateChanges\<close>, as the loop over the session's folders: a folder without a root
  ends it with empty results, a raised conflict check with the error. The effects are
  the prompts shown on the way.
\<close>

fun generateFolders ::
  "('uri, 'fs) es_env \<Rightarrow> 'fs \<Rightarrow> string \<Rightarrow> bool \<Rightarrow> folder list \<Rightarrow>
    'uri target_change list \<times> 'uri target_change list \<Rightarrow>
    (es_error + 'uri target_change list \<times> 'uri target_change list) \<times> 'uri effect list" where
  "generateFolders env fs ref force [] acc = (Inr acc, [])"
| "generateFolders env fs ref force (folder1 # rest) acc =
     (case folderRoot env ref force folder1 of
        (None, effs) \<Rightarrow> (Inr ([], []), effs)
      | (Some root, effs) \<Rightarrow>
          (case collectChanges env fs (localChangesOf env folder1) (wf_uri root)
                  (workingChanges folder1) acc of
             Inl e \<Rightarrow> (Inl e, effs)
           | Inr acc1 \<Rightarrow>
               (case generateFolders env fs ref force rest acc1 of
                  (r, effs1) \<Rightarrow> (r, effs @ effs1))))"

definition generateChanges ::
  "('uri, 'fs) es_env \<Rightarrow> 'fs \<Rightarrow> edit_session \<Rightarrow> string \<Rightarrow> bool \<Rightarrow>
    (es_error + 'uri target_change list \<times> 'uri target_change list) \<times> 'uri effect list" where
  "generateChanges env fs editSession ref force =
     generateFolders env fs ref force (folders editSession) ([], [])"

text \<open>
  The loop of \<open>resumeEditSession\<close> that applies the changes: an addition writes the
  decoded contents, a deletion deletes the file when it exists. It gives the file system
  reached, the calls made, and the error when decoding or a call failed, which ends it.
\<close>

fun applyChanges ::
  "('uri, 'fs) es_env \<Rightarrow> int \<Rightarrow> 'uri target_change list \<Rightarrow> 'fs
    \<Rightarrow> 'fs \<times> 'uri effect list \<times> es_error option" where
  "applyChanges env v [] fs = (fs, [], None)"
| "applyChanges env v ((uri, Addition, c) # cs) fs =
     (case decodeEditSessionFileContent env v c of
        None \<Rightarrow> (fs, [], Some DecodeFailed)
      | Some b \<Rightarrow>
          (case fs_writeFile env fs uri b of
             None \<Rightarrow> (fs, [WriteFile uri b], Some FileOperationFailed)
           | Some fs1 \<Rightarrow>
               (case applyChanges env v cs fs1 of
                  (fs2, effs, r) \<Rightarrow> (fs2, WriteFile uri b # effs, r))))"
| "applyChanges env v ((uri, Deletion, c) # cs) fs =
     (if fs_exists env fs uri then
        (case fs_del env fs uri of
           None \<Rightarrow> (fs, [Del uri], Some FileOperationFailed)
         | Some fs1 \<Rightarrow>
             (case applyChanges env v cs fs1 of
                (fs2, effs, r) \<Rightarrow> (fs2, Del uri # effs, r)))
      else applyChanges env v cs fs)"
| "applyChanges env v ((uri, UnknownChangeType n, c) # cs) fs = applyChanges env v cs fs"

definition resumeFailed :: string where
  "resumeFailed = ''Failed to resume your working changes from the cloud.''"

text \<open>
  \<open>resumeEditSession\<close>: the file system and the effects it leaves. Every error raised
  in the \<open>try\<close> block is caught and notified.
\<close>

definition resumeEditSession ::
  "('uri, 'fs) es_env \<Rightarrow> string option \<Rightarrow> bool \<Rightarrow> bool \<Rightarrow> 'fs \<Rightarrow> 'fs \<times> 'uri effect list" where
  "resumeEditSession env ref silent force fs =
     (if getWorkbenchState env = EMPTY then (fs, [])
      else if silent \<and> \<not> storageInitialize env then (fs, [StorageInitialize])
      else
        (let effs0 = (if silent then [StorageInitialize] else []) @ [StorageRead ref] in
         case storageRead env ref of
           None \<Rightarrow>
             (fs, effs0 @
                (case ref of
                   None \<Rightarrow> (if \<not> silent
                             then [NotifyInfo ''There are no changes to resume from the cloud.'']
                             else [])
                 | Some r \<Rightarrow>
                     [NotifyWarn (''Could not resume changes from the cloud for ID '' @ r @ ''.'')]))
         | Some (ref1, editSession) \<Rightarrow>
             if version editSession > EditSessionSchemaVersion env then
               (fs, effs0 @
                  [NotifyError (''Please upgrade to a newer version of '' @ nameLong env @
                     '' to resume your working changes from the cloud.'')])
             else
               (case generateChanges env fs editSession ref1 force of
                  (Inl e, effs1) \<Rightarrow> (fs, effs0 @ effs1 @ [NotifyError resumeFailed])
                | (Inr (changes, conflictingChanges), effs1) \<Rightarrow>
                    if changes = [] then (fs, effs0 @ effs1)
                    else if conflictingChanges \<noteq> [] \<and> \<not> dialogConfirm env then
                      (fs, effs0 @ effs1 @ [ConfirmOverwrite (map fst conflictingChanges)])
                    else
                      (let effs2 = effs0 @ effs1 @
                             (if conflictingChanges \<noteq> []
                              then [ConfirmOverwrite (map fst conflictingChanges)] else [])
                       in case applyChanges env (version editSession) changes fs of
                            (fs1, effs3, Some e) \<Rightarrow>
                              (fs1, effs2 @ effs3 @ [NotifyError resumeFailed])
                          | (fs1, effs3, None) \<Rightarrow>
                              if storageDelete env ref1
                              then (fs1, effs2 @ effs3 @ [StorageDelete ref1])
                              else (fs1, effs2 @ effs3 @
                                      [StorageDelete ref1, NotifyError resumeFailed])))))"

section \<open>Auxiliary definitions for the statements\<close>

subsection \<open>Allocation and the record of reconnected terminals\<close>

text \<open>
  A creation step: a terminal was created at the fresh reference \<open>i\<close>, no other object
  changed, and the terminal was added to the reconnected terminals of its owner.
\<close>

definition created_step :: "terminal_service \<Rightarrow> instance_ref \<Rightarrow> terminal_service \<Rightarrow> bool" where
  "created_step s i s' \<longleftrightarrow>
     i = nextRef s \<and> nextRef s' = Suc i \<and> (\<forall>j. j \<noteq> i \<longrightarrow> heap s' j = heap s j) \<and>
     reconnectedTerminals s' =
       (case reconnectionProperties (heap s' i) of
          None \<Rightarrow> reconnectedTerminals s
        | Some rp \<Rightarrow> (reconnectedTerminals s)(ownerId rp \<mapsto>
            (case reconnectedTerminals s (ownerId rp) of None \<Rightarrow> [] | Some ts \<Rightarrow> ts) @ [i]))"

definition recorded :: "terminal_service \<Rightarrow> instance_ref list \<Rightarrow> bool" where
  "recorded s xs \<longleftrightarrow>
     (\<forall>i \<in> set xs. i < nextRef s) \<and>
     (\<forall>owner. reconnectedTerminals s owner =
        (if ownedBy (heap s) owner xs = [] then None else Some (ownedBy (heap s) owner xs)))"

text \<open>
  Every reference held by the hosts or the background list has been allocated: what
  \<open>createInstance\<close> returns is held nowhere yet.
\<close>

definition allocated :: "terminal_service \<Rightarrow> bool" where
  "allocated s \<longleftrightarrow>
     (\<forall>i \<in> set (instances s) \<union> set (backgroundedTerminalInstances s). i < nextRef s)"

text \<open>
  Calls that do not show the background terminal \<open>i\<close>: creations without a
  contributed profile (whose provider may do anything to the service), and the showing
  of other terminals of the background list.
\<close>

fun leavesHidden ::
  "instance_ref \<Rightarrow> 'p terminal_env \<Rightarrow> 'p service_call list \<Rightarrow> terminal_service \<Rightarrow> bool" where
  "leavesHidden i env [] s = True"
| "leavesHidden i env (CallCreateTerminal options # cs) s =
     (contributedProfileOf env options = None \<and>
      leavesHidden i env cs (snd (createTerminal env options s)))"
| "leavesHidden i env (CallShowBackgroundTerminal j # cs) s =
     (j \<noteq> i \<and> j \<in> set (backgroundedTerminalInstances s) \<and>
      leavesHidden i env cs (priv_showBackgroundTerminal j s))"

definition stillHidden :: "instance_ref \<Rightarrow> terminal_service \<Rightarrow> bool" where
  "stillHidden i s \<longleftrightarrow>
     allocated s \<and> distinct (backgroundedTerminalInstances s) \<and>
     i \<in> set (backgroundedTerminalInstances s) \<and> i \<notin> set (instances s)"

text \<open>
  What the creation of a terminal in one of the hosts changes: the next reference, and
  the instances by at most the new one.
\<close>

definition created_frame :: "terminal_service \<Rightarrow> terminal_service \<Rightarrow> bool" where
  "created_frame s s' \<longleftrightarrow>
     backgroundedTerminalInstances s' = backgroundedTerminalInstances s \<and>
     nextRef s' = Suc (nextRef s) \<and>
     set (instances s') \<subseteq> insert (nextRef s) (set (instances s))"

subsection \<open>An example environment\<close>

definition exampleConfig :: "string option \<Rightarrow> bool \<Rightarrow> shell_launch_config" where
  "exampleConfig owner hidden =
     \<lparr>customPtyImplementation = False, hideFromUser = hidden, cwd = None,
      parentTerminalId = None, initialText = None, slc_type = None,
      slc_reconnectionProperties =
        map_option (\<lambda>w. \<lparr>ownerId = w, rp_data = []\<rparr>) owner\<rparr>"

definition exampleConstruct :: "nat \<Rightarrow> shell_launch_config \<Rightarrow> TerminalLocation \<Rightarrow> instance_obj" where
  "exampleConstruct i slc loc =
     \<lparr>instanceId = i, target = (if loc = Editor then Some Editor else None),
      reconnectionProperties = slc_reconnectionProperties slc,
      shellLaunchConfig = slc, hasFocus = False\<rparr>"

definition exampleEnv :: "shell_launch_config terminal_env" where
  "exampleEnv =
     \<lparr>constructInstance = exampleConstruct, env_remoteAuthority = None,
      enablePersistentSessions = True, defaultLocation = Panel,
      getDefaultProfile = Some (exampleConfig None False),
      convertProfileToShellLaunchConfig =
        (\<lambda>p. case p of None \<Rightarrow> emptyShellLaunchConfig | Some c \<Rightarrow> c),
      getContributedDefaultProfile = (\<lambda>slc. None),
      getCwdForSplit = (\<lambda>s p. cwd (shellLaunchConfig (heap s p))),
      getContributedProfileProvider = (\<lambda>ext ident. None),
      virtualWorkspace = False, remoteConnection = False,
      uriFrom = Some, formatMessageForTerminal = (\<lambda>m. m)\<rparr>"

definition exampleService :: "bool \<Rightarrow> terminal_service" where
  "exampleService processSupported =
     initialService (\<lambda>i. exampleConstruct i (exampleConfig None False) Panel) processSupported"

definition exampleOptions :: "shell_launch_config option \<Rightarrow> location_options option \<Rightarrow>
    shell_launch_config create_options option" where
  "exampleOptions c l =
     Some \<lparr>opt_config = map_option Profile c, opt_location = l, opt_cwd = None\<rparr>"

subsection \<open>What a stored session should hold\<close>

text \<open>
  A tracked URI is taken into the session when it lies in a workspace folder and is not
  known to be something other than a file (\<open>stat\<close> does not answer with
  \<open>isFile = false\<close>; a file that no longer exists has no \<open>stat\<close>). Its change is an
  addition with the encoded contents when the file exists, else a deletion.
\<close>

definition trackedFile :: "('uri, 'fs) es_env \<Rightarrow> 'fs \<Rightarrow> 'uri \<Rightarrow> bool" where
  "trackedFile env fs uri \<longleftrightarrow>
     getWorkspaceFolder env uri \<noteq> None \<and> fs_stat env fs uri \<noteq> Some False"

definition changeOf :: "('uri, 'fs) es_env \<Rightarrow> 'fs \<Rightarrow> 'uri \<Rightarrow> change" where
  "changeOf env fs uri =
     \<lparr>relativeFilePath =
        (case getWorkspaceFolder env uri of
           None \<Rightarrow> uriPath env uri
         | Some w \<Rightarrow> (case relativePath env (wf_uri w) uri of
                        Some p \<Rightarrow> p | None \<Rightarrow> uriPath env uri)),
      fileType = File,
      change_type = (if fs_exists env fs uri then Addition else Deletion),
      contents = (if fs_exists env fs uri
                  then map_option (encodeBase64 env) (fs_readFile env fs uri) else None)\<rparr>"

definition loopEffect :: "'uri effect \<Rightarrow> bool" where
  "loopEffect e = (case e of SaveAll \<Rightarrow> True | WillCreateEditSessionIdentity w \<Rightarrow> True | _ \<Rightarrow> False)"

subsection \<open>What applying a session should do\<close>






text \<open>The workspace folder a session folder is to be matched to.\<close>

definition acceptsIdentity :: "('uri, 'fs) es_env \<Rightarrow> bool \<Rightarrow> string \<Rightarrow> 'uri workspace_folder \<Rightarrow> bool" where
  "acceptsIdentity env force ci f =
     (case getEditSessionIdentifier env f of
        None \<Rightarrow> False
      | Some identity \<Rightarrow>
          identity = ci \<or>
          provideEditSessionIdentityMatch env f identity ci = Some Complete \<or>
          (provideEditSessionIdentityMatch env f identity ci = Some Partial \<and>
           partialMatchesEnabled env \<and> force))"

subsection \<open>An example workspace\<close>

text \<open>
  In the example workspace a URI is its text, so every URI is held by one object only;
  the file system is a list of paths with what is there. Writing onto a directory and
  deleting what does not exist are refused.
\<close>

datatype example_entry = ExFile string | ExDirectory

type_synonym example_fs = "(string \<times> example_entry) list"

definition exampleFolder :: "string workspace_folder" where
  "exampleFolder = \<lparr>wf_uri = ''/proj'', wf_name = ''proj''\<rparr>"

definition exampleFiles :: example_fs where
  "exampleFiles = [(''/proj/a.txt'', ExFile ''hello''), (''/proj/src'', ExDirectory)]"

definition exampleEsEnv :: "(string, example_fs) es_env" where
  "exampleEsEnv =
     \<lparr>getWorkbenchState = FOLDER,
      workspaceFolders = [exampleFolder],
      getWorkspaceFolder = (\<lambda>u. if take 6 u = ''/proj/'' \<or> u = ''/proj'' then Some exampleFolder else None),
      repositories = [\<lparr>rootUri = Some ''/proj'',
        resourceGroups = [[''/proj/a.txt'', ''/proj/b.txt''],
                          [''/proj/a.txt'', ''/tmp/x'', ''/proj/src'']]\<rparr>],
      relativePath = (\<lambda>b u. if take (length b + 1) u = b @ ''/''
                             then Some (drop (length b + 1) u) else None),
      uriPath = (\<lambda>u. u),
      uriToString = (\<lambda>u. u),
      joinPath = (\<lambda>r p. r @ ''/'' @ p),
      fs_stat = (\<lambda>fs u. case map_of fs u of None \<Rightarrow> None
                   | Some (ExFile c) \<Rightarrow> Some True | Some ExDirectory \<Rightarrow> Some False),
      fs_exists = (\<lambda>fs u. map_of fs u \<noteq> None),
      fs_readFile = (\<lambda>fs u. case map_of fs u of Some (ExFile c) \<Rightarrow> Some c | _ \<Rightarrow> None),
      fs_writeFile = (\<lambda>fs u b. case map_of fs u of Some ExDirectory \<Rightarrow> None
                        | _ \<Rightarrow> Some ((u, ExFile b) # fs)),
      fs_del = (\<lambda>fs u. if map_of fs u \<noteq> None then Some (filter (\<lambda>e. fst e \<noteq> u) fs) else None),
      saveAll = (\<lambda>fs. fs),
      encodeBase64 = (\<lambda>b. ''b64:'' @ b),
      sha1Hex = (\<lambda>c. case c of None \<Rightarrow> ''sha:'' | Some t \<Rightarrow> ''sha:'' @ t),
      decodeEditSessionFileContent =
        (\<lambda>v c. case c of None \<Rightarrow> None
           | Some t \<Rightarrow> if take 4 t = ''b64:'' then Some (drop 4 t) else None),
      EditSessionSchemaVersion = 2,
      getEditSessionIdentifier = (\<lambda>w. Some (''id:'' @ wf_name w)),
      provideEditSessionIdentityMatch = (\<lambda>w a b. Some NoMatch),
      partialMatchesEnabled = False,
      storageInitialize = True,
      storageRead = (\<lambda>r. None),
      storageWrite = (\<lambda>d. Inr ''ref1''),
      storageDelete = (\<lambda>r. True),
      dialogConfirm = True,
      nameLong = ''Code''\<rparr>"

definition exampleChange :: "string \<Rightarrow> ChangeType \<Rightarrow> string option \<Rightarrow> change" where
  "exampleChange p t c = \<lparr>relativeFilePath = p, fileType = File, change_type = t, contents = c\<rparr>"

definition exampleSession :: "int \<Rightarrow> folder list \<Rightarrow> edit_session" where
  "exampleSession v fs = \<lparr>version = v, folders = fs\<rparr>"



text \<open>
  A workspace over another in which URIs are objects: a URI object is a reference and the
  text of the URI, and every service reads the text only. The repositories are given with
  their URI objects; the URIs the services build are the object \<open>0\<close>.
\<close>

type_synonym uri_object = "nat \<times> string"

definition objectFolder :: "string workspace_folder \<Rightarrow> uri_object workspace_folder" where
  "objectFolder w = \<lparr>wf_uri = (0, wf_uri w), wf_name = wf_name w\<rparr>"

definition textFolder :: "uri_object workspace_folder \<Rightarrow> string workspace_folder" where
  "textFolder w = \<lparr>wf_uri = snd (wf_uri w), wf_name = wf_name w\<rparr>"

definition objectEnv ::
  "(string, 'fs) es_env \<Rightarrow> uri_object scm_repository list \<Rightarrow> (uri_object, 'fs) es_env" where
  "objectEnv env repos =
     \<lparr>getWorkbenchState = getWorkbenchState env,
      workspaceFolders = map objectFolder (workspaceFolders env),
      getWorkspaceFolder = (\<lambda>u. map_option objectFolder (getWorkspaceFolder env (snd u))),
      repositories = repos,
      relativePath = (\<lambda>b u. relativePath env (snd b) (snd u)),
      uriPath = (\<lambda>u. uriPath env (snd u)),
      uriToString = (\<lambda>u. uriToString env (snd u)),
      joinPath = (\<lambda>r p. (0, joinPath env (snd r) p)),
      fs_stat = (\<lambda>fs u. fs_stat env fs (snd u)),
      fs_exists = (\<lambda>fs u. fs_exists env fs (snd u)),
      fs_readFile = (\<lambda>fs u. fs_readFile env fs (snd u)),
      fs_writeFile = (\<lambda>fs u b. fs_writeFile env fs (snd u) b),
      fs_del = (\<lambda>fs u. fs_del env fs (snd u)),
      saveAll = saveAll env,
      encodeBase64 = encodeBase64 env,
      sha1Hex = sha1Hex env,
      decodeEditSessionFileContent = decodeEditSessionFileContent env,
      EditSessionSchemaVersion = EditSessionSchemaVersion env,
      getEditSessionIdentifier = (\<lambda>w. getEditSessionIdentifier env (textFolder w)),
      provideEditSessionIdentityMatch =
        (\<lambda>w. provideEditSessionIdentityMatch env (textFolder w)),
      partialMatchesEnabled = partialMatchesEnabled env,
      storageInitialize = storageInitialize env,
      storageRead = storageRead env,
      storageWrite = storageWrite env,
      storageDelete = storageDelete env,
      dialogConfirm = dialogConfirm env,
      nameLong = nameLong env\<rparr>"

text \<open>
  A repository with two resource groups, as of staged and of unstaged changes: the file
  \<open>a.txt\<close> has a resource in both (it was changed again after staging), each with
  its own URI object.
\<close>

definition exampleStagedRepository :: "uri_object scm_repository" where
  "exampleStagedRepository =
     \<lparr>rootUri = Some (1, ''/proj''),
      resourceGroups = [[(2, ''/proj/a.txt'')], [(3, ''/proj/a.txt''), (4, ''/proj/b.txt'')]]\<rparr>"

text \<open>
  The conflict checks of a session folder return: none of them raises, for the root the
  folder is matched to.
\<close>

definition checksReturn :: "('uri, 'fs) es_env \<Rightarrow> 'fs \<Rightarrow> string \<Rightarrow> bool \<Rightarrow> folder \<Rightarrow> bool" where
  "checksReturn env fs ref force folder1 \<longleftrightarrow>
     (case fst (folderRoot env ref force folder1) of
        None \<Rightarrow> True
      | Some root \<Rightarrow>
          (\<forall>c \<in> set (workingChanges folder1).
             \<exists>b. willChangeLocalContents env fs (localChangesOf env folder1)
                    (joinPath env (wf_uri root) (relativeFilePath c)) c = Inr b))"

section \<open>Properties of the terminal service\<close>

lemmas example_defs = exampleConfig_def exampleConstruct_def exampleEnv_def exampleService_def
  initialService_def exampleOptions_def emptyShellLaunchConfig_def

lemmas create_defs = priv_createTerminal_def priv_splitTerminal_def createInstance_def
  createGroupFromConfig_def openEditor_def splitInstance_def groupSplit_def
  priv_addToReconnected_def getGroupForInstance_def splitCwd_def

subsection \<open>Reconnected terminals\<close>

lemma createTerminal_step:
  "priv_createTerminal env slc loc s = (i, s') \<Longrightarrow> created_step s i s'"
  by (auto simp: priv_createTerminal_def created_step_def createInstance_def Let_def
        createGroupFromConfig_def openEditor_def priv_addToReconnected_def
        split: if_splits option.splits prod.splits)

lemma splitTerminal_step:
  "priv_splitTerminal env slc loc parent s = (Inr i, s') \<Longrightarrow> created_step s i s'"
  by (auto simp: priv_splitTerminal_def created_step_def createInstance_def Let_def
        splitInstance_def groupSplit_def priv_addToReconnected_def
        split: if_splits option.splits prod.splits)

lemma splitTerminal_throws:
  "priv_splitTerminal env slc loc parent s = (Inl e, s') \<Longrightarrow> s' = s"
  by (auto simp: priv_splitTerminal_def Let_def split: if_splits option.splits prod.splits)

lemma ownedBy_cong:
  "(\<And>i. i \<in> set xs \<Longrightarrow> h' i = h i) \<Longrightarrow> ownedBy h' owner xs = ownedBy h owner xs"
  unfolding ownedBy_def by (rule filter_cong) auto

lemma recorded_step:
  assumes r: "recorded s xs" and st: "created_step s i s'"
  shows "recorded s' (xs @ [i])"
proof -
  from st have i: "i = nextRef s" and n: "nextRef s' = Suc i"
    and h: "\<And>j. j \<noteq> i \<Longrightarrow> heap s' j = heap s j"
    by (auto simp: created_step_def)
  from r i have lt: "\<And>j. j \<in> set xs \<Longrightarrow> j < i" by (simp add: recorded_def)
  have old: "ownedBy (heap s') owner xs = ownedBy (heap s) owner xs" for owner
    by (rule ownedBy_cong) (use lt h in fastforce)
  have app: "ownedBy (heap s') owner (xs @ [i]) =
      ownedBy (heap s) owner xs @ ownedBy (heap s') owner [i]" for owner
    using old [of owner] by (simp add: ownedBy_def)
  have bound: "\<forall>j \<in> set (xs @ [i]). j < nextRef s'"
    using lt n by (auto intro: less_SucI)
  from r have rs: "reconnectedTerminals s owner =
      (if ownedBy (heap s) owner xs = [] then None else Some (ownedBy (heap s) owner xs))"
    for owner by (simp add: recorded_def)
  have "reconnectedTerminals s' owner =
      (if ownedBy (heap s') owner (xs @ [i]) = [] then None
       else Some (ownedBy (heap s') owner (xs @ [i])))" for owner
  proof (cases "reconnectionProperties (heap s' i)")
    case None
    with st have m: "reconnectedTerminals s' = reconnectedTerminals s"
      by (simp add: created_step_def)
    from None have "ownedBy (heap s') owner [i] = []" by (simp add: ownedBy_def)
    with m rs [of owner] show ?thesis by (simp add: app)
  next
    case (Some rp)
    with st have m: "reconnectedTerminals s' = (reconnectedTerminals s)(ownerId rp \<mapsto>
        (case reconnectedTerminals s (ownerId rp) of None \<Rightarrow> [] | Some ts \<Rightarrow> ts) @ [i])"
      by (simp add: created_step_def)
    show ?thesis
    proof (cases "ownerId rp = owner")
      case True
      with Some have "ownedBy (heap s') owner [i] = [i]" by (simp add: ownedBy_def)
      with True m rs [of owner] show ?thesis by (simp add: app)
    next
      case False
      with Some have "ownedBy (heap s') owner [i] = []" by (simp add: ownedBy_def)
      with False m rs [of owner] show ?thesis by (simp add: app)
    qed
  qed
  with bound show ?thesis by (simp add: recorded_def)
qed

lemma createAll_recorded:
  "recorded s xs \<Longrightarrow> createAll env cs s = (js, s') \<Longrightarrow> recorded s' (xs @ js)"
proof (induction env cs s arbitrary: xs js s' rule: createAll.induct)
  case (1 env s)
  then show ?case by simp
next
  case (2 env slc loc cs s)
  obtain i s1 where c: "priv_createTerminal env slc loc s = (i, s1)" by force
  obtain ks s2 where a: "createAll env cs s1 = (ks, s2)" by force
  from c a "2.prems" have js: "js = i # ks" and s': "s' = s2" by auto
  from "2.prems"(1) createTerminal_step [OF c] have "recorded s1 (xs @ [i])"
    by (rule recorded_step)
  from "2.IH" [OF c [symmetric] this a] show ?case by (simp add: js s')
next
  case (3 env slc loc parent cs s)
  obtain r s1 where c: "priv_splitTerminal env slc loc parent s = (r, s1)" by force
  show ?case
  proof (cases r)
    case (Inl e)
    with c have "s1 = s" by (simp add: splitTerminal_throws)
    with 3 c Inl show ?thesis by simp
  next
    case (Inr i)
    obtain ks s2 where a: "createAll env cs s1 = (ks, s2)" by force
    from Inr c a "3.prems" have js: "js = i # ks" and s': "s' = s2" by auto
    from "3.prems"(1) splitTerminal_step [OF c [unfolded Inr]] have "recorded s1 (xs @ [i])"
      by (rule recorded_step)
    from "3.IH"(2) [OF c [symmetric] Inr this a] show ?thesis by (simp add: js s')
  qed
qed

text \<open>
  C6. Starting with no reconnected terminals, after any sequence of creations through
  \<open>_createTerminal\<close> and \<open>_splitTerminal\<close>, \<open>getReconnectedTerminals owner\<close> is the
  list of the created instances whose reconnection properties name that owner, in the
  order of their creation, and undefined when there is none. An instance without
  reconnection properties is in no such list.
\<close>

theorem reconnected_terminals_by_owner:
  assumes "reconnectedTerminals s = Map.empty"
  shows "getReconnectedTerminals (snd (createAll env cs s)) owner =
    (let created = ownedBy (heap (snd (createAll env cs s))) owner (fst (createAll env cs s))
     in if created = [] then None else Some created)"
proof -
  from assms have "recorded s []" by (simp add: recorded_def ownedBy_def)
  from createAll_recorded [OF this, of env cs "fst (createAll env cs s)" "snd (createAll env cs s)"]
  show ?thesis by (simp add: recorded_def getReconnectedTerminals_def Let_def)
qed

theorem reconnected_terminals_by_owner_witness:
  "reconnectedTerminals (exampleService True) = Map.empty \<and>
   getReconnectedTerminals (snd (createAll exampleEnv
      [CreateTerminal (exampleConfig (Some ''Task'') False) Panel,
       CreateTerminal (exampleConfig None False) Editor,
       SplitTerminal (exampleConfig (Some ''Task'') False) Panel 0,
       CreateTerminal (exampleConfig (Some ''Debug'') False) Editor] (exampleService True))) ''Task''
     = Some [0, 2]"
proof -
  have h: "reconnectedTerminals (exampleService True) = Map.empty"
    by (simp add: example_defs)
  show ?thesis
    using h reconnected_terminals_by_owner [OF h, of exampleEnv
      "[CreateTerminal (exampleConfig (Some ''Task'') False) Panel,
       CreateTerminal (exampleConfig None False) Editor,
       SplitTerminal (exampleConfig (Some ''Task'') False) Panel 0,
       CreateTerminal (exampleConfig (Some ''Debug'') False) Editor]" "''Task''"]
    by (simp add: example_defs create_defs Let_def ownedBy_def)
qed

subsection \<open>Connection state\<close>

text \<open>
  C5. When the backend's remote authority equals the environment's,
  \<open>handleNewRegisteredBackend\<close> sets the connection state to \<open>Connecting\<close>, fires
  nothing yet, and starts one reconnection: the remote one when there is a remote
  authority and persistent sessions are enabled, the local one when only persistent
  sessions are enabled, and otherwise a promise that is already resolved. Whenever a
  pending reconnection completes (its promise is fulfilled, which the resolved promise
  always is), in whatever state the service is then, the connection state becomes
  \<open>Connected\<close> and \<open>onDidChangeConnectionState\<close> fires.
\<close>

theorem connection_state_after_backend:
  assumes "backend_remoteAuthority backend = env_remoteAuthority env"
  shows "connectionState (handleNewRegisteredBackend env backend s) = Connecting \<and>
    pendingReconnections (handleNewRegisteredBackend env backend s) =
      pendingReconnections s @
        [if truthy (env_remoteAuthority env) \<and> enablePersistentSessions env then ReconnectRemote
         else if enablePersistentSessions env then ReconnectLocal
         else ReconnectNone] \<and>
    firedEvents (handleNewRegisteredBackend env backend s) = firedEvents s \<and>
    (\<forall>s2 n fulfilled.
       n < length (pendingReconnections s2) \<and>
       (fulfilled \<or> pendingReconnections s2 ! n = ReconnectNone) \<longrightarrow>
       (\<exists>s3. reconnectionSettled n fulfilled s2 = Some s3 \<and>
          connectionState s3 = Connected \<and>
          firedEvents s3 = firedEvents s2 @ [DidChangeConnectionState]))"
  using assms
  by (simp add: handleNewRegisteredBackend_def Let_def reconnectionSettled_def
      priv_setConnected_def)

theorem connection_state_after_backend_witness:
  "backend_remoteAuthority \<lparr>backend_remoteAuthority = None\<rparr> = env_remoteAuthority exampleEnv \<and>
   connectionState (handleNewRegisteredBackend exampleEnv \<lparr>backend_remoteAuthority = None\<rparr>
      (exampleService True)) = Connecting \<and>
   pendingReconnections (handleNewRegisteredBackend exampleEnv \<lparr>backend_remoteAuthority = None\<rparr>
      (exampleService True)) = [ReconnectLocal] \<and>
   map_option connectionState
     (reconnectionSettled 0 True
        (handleNewRegisteredBackend exampleEnv \<lparr>backend_remoteAuthority = None\<rparr>
           (exampleService True))) = Some Connected"
proof -
  have h: "backend_remoteAuthority \<lparr>backend_remoteAuthority = None\<rparr> = env_remoteAuthority exampleEnv"
    by (simp add: exampleEnv_def)
  show ?thesis
    using h connection_state_after_backend [OF h, of "exampleService True"]
    by (simp add: example_defs handleNewRegisteredBackend_def Let_def reconnectionSettled_def
        priv_setConnected_def truthy_def)
qed

subsection \<open>Creating a terminal\<close>

lemma resolveCwd_keeps:
  "priv_resolveCwd env slc b options s = Inr slc' \<Longrightarrow>
     customPtyImplementation slc' = customPtyImplementation slc \<and>
     hideFromUser slc' = hideFromUser slc"
  by (auto simp: priv_resolveCwd_def Let_def split: if_splits option.splits location_options.splits)

lemma launchContributed_error:
  "fst (launchContributed env c b options s) \<noteq> Inl ProcessSupportNotRegistered"
  by (simp add: launchContributed_def Let_def)

lemma splitTerminal_error:
  "fst (priv_splitTerminal env slc loc p s) \<noteq> Inl ProcessSupportNotRegistered"
  by (auto simp: priv_splitTerminal_def Let_def split: prod.splits option.splits)

lemma resolveCwd_error:
  "priv_resolveCwd env slc b options s = Inl e \<Longrightarrow> e = CannotSplitWithoutActiveInstance"
  by (auto simp: priv_resolveCwd_def Let_def split: if_splits option.splits location_options.splits)

text \<open>
  C10, amended. \<open>createTerminal\<close> throws "Could not create terminal when process
  support is not registered" exactly when resolving the \<open>cwd\<close> does not throw, no
  contributed profile is used, the launch configuration has no
  \<open>customPtyImplementation\<close> and process support is not registered. When resolving the
  \<open>cwd\<close> throws (a split that has neither a \<open>cwd\<close> nor a parent or active
  instance), it throws "Cannot split without an active instance" and changes nothing,
  whether process support is registered or not. With no contributed profile, a custom
  pty or registered process support, and a \<open>cwd\<close> that resolves, it returns an
  instance when the terminal is hidden from the user or there is no split parent.
\<close>

theorem createTerminal_process_support:
  "(fst (createTerminal env options s) = Inl ProcessSupportNotRegistered \<longleftrightarrow>
      (\<exists>slc. priv_resolveCwd env (shellLaunchConfigOf env options)
                (splitActiveTerminalOf options) options s = Inr slc) \<and>
      contributedProfileOf env options = None \<and>
      \<not> customPtyImplementation (shellLaunchConfigOf env options) \<and>
      \<not> isProcessSupportRegistered s) \<and>
   ((\<exists>e. priv_resolveCwd env (shellLaunchConfigOf env options)
                (splitActiveTerminalOf options) options s = Inl e) \<longrightarrow>
      createTerminal env options s = (Inl CannotSplitWithoutActiveInstance, s)) \<and>
   ((\<exists>slc. priv_resolveCwd env (shellLaunchConfigOf env options)
                (splitActiveTerminalOf options) options s = Inr slc) \<and>
    contributedProfileOf env options = None \<and>
    (customPtyImplementation (shellLaunchConfigOf env options) \<or> isProcessSupportRegistered s) \<and>
    (hideFromUser (shellLaunchConfigOf env options) \<or>
     priv_getSplitParent (optionsLocation options) s = None) \<longrightarrow>
      (\<exists>i. fst (createTerminal env options s) = Inr i))"
proof (cases "priv_resolveCwd env (shellLaunchConfigOf env options)
                (splitActiveTerminalOf options) options s")
  case (Inl e)
  then show ?thesis
    by (auto simp: createTerminal_def Let_def dest: resolveCwd_error)
next
  case (Inr slc)
  note k = resolveCwd_keeps [OF Inr]
  show ?thesis
  proof (cases "contributedProfileOf env options")
    case None
    with Inr k show ?thesis
      by (auto simp: createTerminal_def Let_def splitTerminal_error
            split: prod.splits option.splits)
  next
    case (Some c)
    with Inr show ?thesis
      using launchContributed_error [of env c "splitActiveTerminalOf options" options s]
      by (simp add: createTerminal_def Let_def)
  qed
qed

lemmas createTerminal_defs = createTerminal_def priv_resolveCwd_def shellLaunchConfigOf_def
  configOf_def contributedProfileOf_def splitActiveTerminalOf_def optionsLocation_def
  truthyCwd_def isProcessSupportRegistered_def activeInstance_def focused_def
  priv_getSplitParent_def resolveLocation_def priv_evaluateLocalCwd_def

theorem createTerminal_process_support_witness:
  "fst (createTerminal exampleEnv None (exampleService False)) = Inl ProcessSupportNotRegistered \<and>
   createTerminal exampleEnv (exampleOptions None (Some (SplitActiveTerminal True)))
       (exampleService True) =
     (Inl CannotSplitWithoutActiveInstance, exampleService True) \<and>
   (\<exists>i. fst (createTerminal exampleEnv None (exampleService True)) = Inr i)"
proof -
  have a: "priv_resolveCwd exampleEnv (shellLaunchConfigOf exampleEnv None)
      (splitActiveTerminalOf (None :: shell_launch_config create_options option)) None (exampleService False) = Inr (exampleConfig None False)"
    by (simp add: example_defs createTerminal_defs)
  have a': "priv_resolveCwd exampleEnv (shellLaunchConfigOf exampleEnv None)
      (splitActiveTerminalOf (None :: shell_launch_config create_options option)) None (exampleService True) = Inr (exampleConfig None False)"
    by (simp add: example_defs createTerminal_defs)
  have b: "contributedProfileOf exampleEnv None = None"
      "\<not> customPtyImplementation (shellLaunchConfigOf exampleEnv None)"
      "\<not> isProcessSupportRegistered (exampleService False)"
      "isProcessSupportRegistered (exampleService True)"
      "priv_getSplitParent (optionsLocation (None :: shell_launch_config create_options option)) (exampleService True) = None"
    by (simp_all add: example_defs createTerminal_defs)
  have c: "priv_resolveCwd exampleEnv
      (shellLaunchConfigOf exampleEnv (exampleOptions None (Some (SplitActiveTerminal True))))
      (splitActiveTerminalOf (exampleOptions None (Some (SplitActiveTerminal True))))
      (exampleOptions None (Some (SplitActiveTerminal True))) (exampleService True) =
      Inl CannotSplitWithoutActiveInstance"
    by (simp add: example_defs createTerminal_defs)
  have 1: "fst (createTerminal exampleEnv None (exampleService False)) =
      Inl ProcessSupportNotRegistered"
    using a b createTerminal_process_support [of exampleEnv None "exampleService False"]
    by simp
  have 2: "createTerminal exampleEnv (exampleOptions None (Some (SplitActiveTerminal True)))
       (exampleService True) = (Inl CannotSplitWithoutActiveInstance, exampleService True)"
    using c createTerminal_process_support [of exampleEnv
        "exampleOptions None (Some (SplitActiveTerminal True))" "exampleService True"]
    by simp
  have 3: "\<exists>i. fst (createTerminal exampleEnv None (exampleService True)) = Inr i"
    using a' b createTerminal_process_support [of exampleEnv None "exampleService True"]
    by simp
  from 1 2 3 show ?thesis by simp
qed

text \<open>
  The claim as stated fails for a split of the active terminal when there is no active
  instance. With process support not registered, no contributed profile and no custom
  pty, the error thrown is "Cannot split without an active instance", not the one the
  claim names; with process support registered, the same error is thrown where the
  claim has an instance returned.
\<close>

theorem createTerminal_other_error_counterexample:
  "contributedProfileOf exampleEnv (exampleOptions None (Some (SplitActiveTerminal True))) = None \<and>
   \<not> customPtyImplementation
       (shellLaunchConfigOf exampleEnv (exampleOptions None (Some (SplitActiveTerminal True)))) \<and>
   \<not> isProcessSupportRegistered (exampleService False) \<and>
   fst (createTerminal exampleEnv (exampleOptions None (Some (SplitActiveTerminal True)))
          (exampleService False)) = Inl CannotSplitWithoutActiveInstance \<and>
   isProcessSupportRegistered (exampleService True) \<and>
   fst (createTerminal exampleEnv (exampleOptions None (Some (SplitActiveTerminal True)))
          (exampleService True)) = Inl CannotSplitWithoutActiveInstance"
  by (simp add: example_defs createTerminal_defs)

subsection \<open>Background terminals\<close>

lemma findIndex_None: "findIndex P xs = None \<longleftrightarrow> (\<forall>x \<in> set xs. \<not> P x)"
  by (induction xs) auto

lemma findIndex_Some:
  "findIndex P xs = Some k \<Longrightarrow> k < length xs \<and> P (xs ! k) \<and> (\<forall>j < k. \<not> P (xs ! j))"
proof (induction xs arbitrary: k)
  case Nil
  then show ?case by simp
next
  case (Cons x xs)
  show ?case
  proof (cases "P x")
    case True
    with Cons.prems show ?thesis by simp
  next
    case False
    with Cons.prems obtain m where m: "findIndex P xs = Some m" and k: "k = Suc m"
      by auto
    from Cons.IH [OF m] False k show ?thesis
      by (auto simp: less_Suc_eq_0_disj)
  qed
qed

lemma spliceIndexOf_Cons:
  "x \<in> set (y # ys) \<Longrightarrow>
   spliceIndexOf x (y # ys) = (if y = x then ys else y # spliceIndexOf x ys)"
  by (auto simp: spliceIndexOf_def findIndex_None split: option.splits)

lemma spliceIndexOf_remove1: "x \<in> set xs \<Longrightarrow> spliceIndexOf x xs = remove1 x xs"
proof (induction xs)
  case Nil
  then show ?case by simp
next
  case (Cons y ys)
  show ?case
  proof (cases "y = x")
    case True
    with Cons.prems show ?thesis by (simp add: spliceIndexOf_Cons)
  next
    case False
    with Cons.prems have "x \<in> set ys" by simp
    from Cons.IH [OF this] Cons.prems False show ?thesis
      by (simp add: spliceIndexOf_Cons)
  qed
qed

lemma set_insertAfter: "set (insertAfter p x ys) = insert x (set ys)"
  by (induction ys) auto

lemma set_concat_update:
  "set (concat (gs[g := ys])) \<subseteq> set ys \<union> set (concat gs)"
proof -
  have "set (gs[g := ys]) \<subseteq> insert ys (set gs)" by (rule set_update_subset_insert)
  then show ?thesis by auto
qed

lemma addToReconnected_frame:
  "groups (priv_addToReconnected i s) = groups s \<and>
   editorInstances (priv_addToReconnected i s) = editorInstances s \<and>
   backgroundedTerminalInstances (priv_addToReconnected i s) = backgroundedTerminalInstances s \<and>
   nextRef (priv_addToReconnected i s) = nextRef s"
  by (simp add: priv_addToReconnected_def split: option.splits)

lemma priv_createTerminal_frame:
  "created_frame s (snd (priv_createTerminal env slc loc s))"
  by (auto simp: created_frame_def priv_createTerminal_def createInstance_def Let_def
      createGroupFromConfig_def openEditor_def addToReconnected_frame instances_def
      groupInstances_def split: prod.splits)

lemma priv_splitTerminal_frame:
  "priv_splitTerminal env slc0 loc p s = (Inr i, s') \<Longrightarrow> created_frame s s'"
proof -
  assume a: "priv_splitTerminal env slc0 loc p s = (Inr i, s')"
  then obtain slc where c: "splitCwd env slc0 (shellLaunchConfig (heap s p)) = Some slc"
    by (auto simp: priv_splitTerminal_def split: option.splits)
  show ?thesis
  proof (cases "loc = Editor \<or> target (heap s p) = Some Editor")
    case True
    with a c show ?thesis
      by (auto simp: created_frame_def priv_splitTerminal_def createInstance_def Let_def
          splitInstance_def addToReconnected_frame instances_def groupInstances_def
          split: prod.splits)
  next
    case False
    with a c obtain g where g: "getGroupForInstance p s = Some g"
      by (auto simp: priv_splitTerminal_def Let_def split: option.splits)
    from g have gl: "g < length (groups s)"
      by (auto simp: getGroupForInstance_def dest: findIndex_Some)
    then have sub: "set (groups s ! g) \<subseteq> set (concat (groups s))"
      by (auto intro!: bexI [of _ "groups s ! g"])
    from a c False g have s': "groups s' = (groups s)[g := insertAfter p (nextRef s) (groups s ! g)]"
      and e': "editorInstances s' = editorInstances s"
      and b': "backgroundedTerminalInstances s' = backgroundedTerminalInstances s"
      and n': "nextRef s' = Suc (nextRef s)"
      by (auto simp: priv_splitTerminal_def createInstance_def Let_def groupSplit_def
          addToReconnected_frame split: prod.splits)
    from set_concat_update [of "groups s" g "insertAfter p (nextRef s) (groups s ! g)"] sub
    have "set (concat (groups s')) \<subseteq> insert (nextRef s) (set (concat (groups s)))"
      unfolding s' set_insertAfter by blast
    with e' b' n' show ?thesis
      by (auto simp: created_frame_def instances_def groupInstances_def)
  qed
qed

lemma created_frame_hidden:
  "stillHidden i s \<Longrightarrow> created_frame s s' \<Longrightarrow> stillHidden i s'"
  by (auto simp: stillHidden_def created_frame_def allocated_def intro: less_SucI)

lemma stillHidden_flag: "stillHidden i s \<Longrightarrow> stillHidden i (s\<lparr>terminalHasBeenCreated := True\<rparr>)"
  by (simp add: stillHidden_def allocated_def instances_def groupInstances_def)

lemma createTerminal_hidden:
  assumes c: "contributedProfileOf env options = None" and h: "stillHidden i s"
  shows "stillHidden i (snd (createTerminal env options s))"
proof (cases "priv_resolveCwd env (shellLaunchConfigOf env options)
                (splitActiveTerminalOf options) options s")
  case (Inl e)
  with h show ?thesis by (simp add: createTerminal_def Let_def)
next
  case (Inr slc)
  show ?thesis
  proof (cases "\<not> customPtyImplementation slc \<and> \<not> isProcessSupportRegistered s")
    case True
    with Inr c h show ?thesis by (simp add: createTerminal_def Let_def)
  next
    case ok: False
    show ?thesis
    proof (cases "hideFromUser slc")
      case True
      from h have "nextRef s \<notin> set (backgroundedTerminalInstances s)"
        "nextRef s \<notin> set (instances s)"
        by (auto simp: stillHidden_def allocated_def)
      with Inr c ok True h show ?thesis
        by (auto simp: createTerminal_def Let_def createInstance_def stillHidden_def allocated_def
            instances_def groupInstances_def intro: less_SucI)
    next
      case False
      define s1 where "s1 = s\<lparr>terminalHasBeenCreated := True\<rparr>"
      from h have h1: "stillHidden i s1" unfolding s1_def by (rule stillHidden_flag)
      define slc1 where "slc1 = priv_evaluateLocalCwd env slc"
      define loc where "loc = (case resolveLocation (optionsLocation options) s of
          Some l \<Rightarrow> l | None \<Rightarrow> defaultLocation env)"
      show ?thesis
      proof (cases "priv_getSplitParent (optionsLocation options) s")
        case None
        with Inr c ok False have "snd (createTerminal env options s) =
            snd (priv_createTerminal env slc1 loc s1)"
          by (auto simp: createTerminal_def Let_def s1_def slc1_def loc_def split: prod.splits)
        with created_frame_hidden [OF h1 priv_createTerminal_frame [of s1 env slc1 loc]]
        show ?thesis by simp
      next
        case (Some p)
        with Inr c ok False have e: "createTerminal env options s =
            priv_splitTerminal env slc1 loc p s1"
          by (auto simp: createTerminal_def Let_def s1_def slc1_def loc_def)
        obtain r s2 where r: "priv_splitTerminal env slc1 loc p s1 = (r, s2)" by force
        show ?thesis
        proof (cases r)
          case (Inl e')
          with r have "s2 = s1" by (simp add: splitTerminal_throws)
          with e r h1 show ?thesis by simp
        next
          case (Inr j)
          with r have "created_frame s1 s2" by (simp add: priv_splitTerminal_frame)
          from created_frame_hidden [OF h1 this] e r show ?thesis by simp
        qed
      qed
    qed
  qed
qed

lemma show_other_hidden:
  assumes h: "stillHidden i s" and j: "j \<noteq> i" "j \<in> set (backgroundedTerminalInstances s)"
  shows "stillHidden i (priv_showBackgroundTerminal j s)"
proof -
  have b: "backgroundedTerminalInstances (priv_showBackgroundTerminal j s) =
      remove1 j (backgroundedTerminalInstances s)"
    using j(2) by (simp add: priv_showBackgroundTerminal_def Let_def createGroupFromInstance_def
        setActiveInstanceByIndex_def priv_evaluateActiveInstance_def spliceIndexOf_remove1)
  have g: "groups (priv_showBackgroundTerminal j s) = groups s @ [[j]]"
    by (simp add: priv_showBackgroundTerminal_def Let_def createGroupFromInstance_def
        setActiveInstanceByIndex_def priv_evaluateActiveInstance_def)
  have e: "editorInstances (priv_showBackgroundTerminal j s) = editorInstances s"
    by (simp add: priv_showBackgroundTerminal_def Let_def createGroupFromInstance_def
        setActiveInstanceByIndex_def priv_evaluateActiveInstance_def)
  have n: "nextRef (priv_showBackgroundTerminal j s) = nextRef s"
    by (simp add: priv_showBackgroundTerminal_def Let_def createGroupFromInstance_def
        setActiveInstanceByIndex_def priv_evaluateActiveInstance_def)
  from h j have jn: "j < nextRef s" by (auto simp: stillHidden_def allocated_def)
  from h j jn show ?thesis
    by (auto simp: stillHidden_def allocated_def b g e n instances_def groupInstances_def
        dest: notin_set_remove1)
qed

lemma runCalls_hidden:
  "stillHidden i s \<Longrightarrow> leavesHidden i env calls s \<Longrightarrow> stillHidden i (runCalls env calls s)"
proof (induction env calls s rule: runCalls.induct)
  case (1 env s)
  then show ?case by simp
next
  case (2 env options cs s)
  from "2.prems" have c: "contributedProfileOf env options = None"
    and l: "leavesHidden i env cs (snd (createTerminal env options s))" by simp_all
  from "2.IH" [OF createTerminal_hidden [OF c "2.prems"(1)] l] show ?case by simp
next
  case (3 env j cs s)
  from "3.prems" have j: "j \<noteq> i" "j \<in> set (backgroundedTerminalInstances s)"
    and l: "leavesHidden i env cs (priv_showBackgroundTerminal j s)" by simp_all
  from "3.IH" [OF show_other_hidden [OF "3.prems"(1) j] l] show ?case by simp
qed

text \<open>
  C7. \<open>instances\<close> is the group service's instances followed by the editor service's.
  In a service whose hosts and background list hold allocated references only, the
  background list without duplicates, a terminal created by \<open>createTerminal\<close> without
  a contributed profile and with \<open>hideFromUser\<close> set is appended to the backgrounded
  list, and \<open>instances\<close> stays as it was and does not contain the terminal. Through any
  later calls that create terminals without a contributed profile or show other
  background terminals, it stays in the backgrounded list and out of \<open>instances\<close>.
  Showing it then removes it from the backgrounded list and adds it to the group service
  as a new group, so that it is in \<open>instances\<close>.
\<close>

theorem background_terminal_shown:
  assumes a: "allocated s"
    and d: "distinct (backgroundedTerminalInstances s)"
    and c: "contributedProfileOf env options = None"
    and h: "hideFromUser (shellLaunchConfigOf env options)"
    and r: "fst (createTerminal env options s) = Inr i"
    and l: "leavesHidden i env calls (snd (createTerminal env options s))"
  shows "let s1 = snd (createTerminal env options s);
             s2 = runCalls env calls s1;
             s3 = priv_showBackgroundTerminal i s2
    in instances s1 = groupInstances s1 @ editorInstances s1 \<and>
       instances s1 = instances s \<and>
       backgroundedTerminalInstances s1 = backgroundedTerminalInstances s @ [i] \<and>
       i \<notin> set (instances s1) \<and>
       i \<in> set (backgroundedTerminalInstances s2) \<and>
       i \<notin> set (instances s2) \<and>
       backgroundedTerminalInstances s3 = remove1 i (backgroundedTerminalInstances s2) \<and>
       i \<notin> set (backgroundedTerminalInstances s3) \<and>
       groups s3 = groups s2 @ [[i]] \<and>
       instances s3 = groupInstances s2 @ [i] @ editorInstances s2"
proof -
  define s1 where "s1 = snd (createTerminal env options s)"
  define s2 where "s2 = runCalls env calls s1"
  from r have r': "createTerminal env options s = (Inr i, s1)"
    by (simp add: prod_eq_iff s1_def)
  obtain slc where rc: "priv_resolveCwd env (shellLaunchConfigOf env options)
      (splitActiveTerminalOf options) options s = Inr slc"
    using r' by (cases "priv_resolveCwd env (shellLaunchConfigOf env options)
      (splitActiveTerminalOf options) options s") (auto simp: createTerminal_def Let_def)
  from resolveCwd_keeps [OF rc] h have hs: "hideFromUser slc" by simp
  from r' rc c hs have i: "i = nextRef s" and n: "nextRef s1 = Suc (nextRef s)"
    and g: "groups s1 = groups s" and e: "editorInstances s1 = editorInstances s"
    and b: "backgroundedTerminalInstances s1 = backgroundedTerminalInstances s @ [i]"
    by (auto simp: createTerminal_def Let_def createInstance_def split: if_splits)
  from a i have fresh: "i \<notin> set (instances s)" "i \<notin> set (backgroundedTerminalInstances s)"
    by (auto simp: allocated_def)
  have inst: "instances s1 = instances s"
    by (simp add: instances_def groupInstances_def g e)
  from a have "allocated s1"
    by (auto simp: allocated_def inst b n i intro: less_SucI)
  with d fresh have "stillHidden i s1"
    by (simp add: stillHidden_def b inst)
  from runCalls_hidden [OF this l [folded s1_def]] have h2: "stillHidden i s2"
    by (simp add: s2_def)
  then have in2: "i \<in> set (backgroundedTerminalInstances s2)"
    and d2: "distinct (backgroundedTerminalInstances s2)"
    and out2: "i \<notin> set (instances s2)"
    by (simp_all add: stillHidden_def)
  have bg: "backgroundedTerminalInstances (priv_showBackgroundTerminal i s2) =
      remove1 i (backgroundedTerminalInstances s2)"
    using in2 by (simp add: priv_showBackgroundTerminal_def Let_def createGroupFromInstance_def
        setActiveInstanceByIndex_def priv_evaluateActiveInstance_def spliceIndexOf_remove1)
  have gr: "groups (priv_showBackgroundTerminal i s2) = groups s2 @ [[i]]"
    by (simp add: priv_showBackgroundTerminal_def Let_def createGroupFromInstance_def
        setActiveInstanceByIndex_def priv_evaluateActiveInstance_def)
  have ed: "editorInstances (priv_showBackgroundTerminal i s2) = editorInstances s2"
    by (simp add: priv_showBackgroundTerminal_def Let_def createGroupFromInstance_def
        setActiveInstanceByIndex_def priv_evaluateActiveInstance_def)
  show ?thesis
    unfolding Let_def s1_def [symmetric] s2_def [symmetric]
    using fresh inst b in2 out2 d2 bg gr ed
    by (simp add: instances_def groupInstances_def)
qed

theorem background_terminal_shown_witness:
  "allocated (exampleService True) \<and>
   fst (createTerminal exampleEnv (exampleOptions (Some (exampleConfig None True)) None)
      (exampleService True)) = Inr 0 \<and>
   backgroundedTerminalInstances (snd (createTerminal exampleEnv
      (exampleOptions (Some (exampleConfig None True)) None) (exampleService True))) = [0] \<and>
   instances (snd (createTerminal exampleEnv
      (exampleOptions (Some (exampleConfig None True)) None) (exampleService True))) = [] \<and>
   instances (runCalls exampleEnv [CallCreateTerminal (exampleOptions None None)]
      (snd (createTerminal exampleEnv
        (exampleOptions (Some (exampleConfig None True)) None) (exampleService True)))) = [1] \<and>
   instances (priv_showBackgroundTerminal 0
      (runCalls exampleEnv [CallCreateTerminal (exampleOptions None None)]
        (snd (createTerminal exampleEnv
          (exampleOptions (Some (exampleConfig None True)) None) (exampleService True))))) = [1, 0] \<and>
   backgroundedTerminalInstances (priv_showBackgroundTerminal 0
      (runCalls exampleEnv [CallCreateTerminal (exampleOptions None None)]
        (snd (createTerminal exampleEnv
          (exampleOptions (Some (exampleConfig None True)) None) (exampleService True))))) = []"
proof -
  define s1 where "s1 = snd (createTerminal exampleEnv
      (exampleOptions (Some (exampleConfig None True)) None) (exampleService True))"
  define s2 where "s2 = runCalls exampleEnv [CallCreateTerminal (exampleOptions None None)] s1"
  have a: "allocated (exampleService True)"
    by (simp add: allocated_def example_defs instances_def groupInstances_def)
  have d: "distinct (backgroundedTerminalInstances (exampleService True))"
    by (simp add: example_defs)
  have c: "contributedProfileOf exampleEnv (exampleOptions (Some (exampleConfig None True)) None) = None"
    by (simp add: example_defs createTerminal_defs)
  have h: "hideFromUser (shellLaunchConfigOf exampleEnv
      (exampleOptions (Some (exampleConfig None True)) None))"
    by (simp add: example_defs createTerminal_defs)
  have r: "fst (createTerminal exampleEnv (exampleOptions (Some (exampleConfig None True)) None)
      (exampleService True)) = Inr 0"
    by (simp add: example_defs createTerminal_defs createInstance_def Let_def)
  have l: "leavesHidden 0 exampleEnv [CallCreateTerminal (exampleOptions None None)]
      (snd (createTerminal exampleEnv
        (exampleOptions (Some (exampleConfig None True)) None) (exampleService True)))"
    by (simp add: example_defs createTerminal_defs)
  have e: "backgroundedTerminalInstances (exampleService True) = []"
      "instances (exampleService True) = []"
    by (simp_all add: example_defs instances_def groupInstances_def)
  have e2: "groupInstances s2 = [1]" "editorInstances s2 = []"
      "backgroundedTerminalInstances s2 = [0]"
    by (simp_all add: s2_def s1_def example_defs createTerminal_defs create_defs Let_def
        instances_def groupInstances_def)
  show ?thesis
    using a r e e2 background_terminal_shown [OF a d c h r l]
    by (simp add: Let_def s1_def [symmetric] s2_def [symmetric] instances_def
        del: runCalls.simps)
qed

section \<open>Properties of the edit sessions contribution\<close>

lemmas es_example_defs = exampleEsEnv_def exampleFolder_def exampleFiles_def exampleChange_def
  exampleSession_def

lemmas generate_defs = generateChanges_def folderRoot_def truthy_def localChangesOf_def
  getChangedResources_def setAdd_def willChangeLocalContents_def Let_def

subsection \<open>Resuming in an empty workspace or from a newer schema\<close>

text \<open>
  C9. In an empty workspace \<open>resumeEditSession\<close> returns at once, for every reference
  and every flag: no call is made, so the cloud storage is not read, and the file system
  is as before.
\<close>

theorem resume_empty_workspace:
  assumes "getWorkbenchState env = EMPTY"
  shows "resumeEditSession env ref silent force fs = (fs, [])"
  using assms by (simp add: resumeEditSession_def)

theorem resume_empty_workspace_witness:
  "getWorkbenchState (exampleEsEnv\<lparr>getWorkbenchState := EMPTY\<rparr>) = EMPTY \<and>
   resumeEditSession (exampleEsEnv\<lparr>getWorkbenchState := EMPTY\<rparr>) (Some ''ref1'') False False
     exampleFiles = (exampleFiles, [])"
proof -
  have h: "getWorkbenchState (exampleEsEnv\<lparr>getWorkbenchState := EMPTY\<rparr>) = EMPTY"
    by simp
  show ?thesis
    using h resume_empty_workspace [OF h, of "Some ''ref1''" False False exampleFiles]
    by simp
qed

text \<open>
  C8. When the session read has a version greater than \<open>EditSessionSchemaVersion\<close>,
  \<open>resumeEditSession\<close> notifies the error and returns: after reading the session its
  only call is the error notification, so no file is written or deleted and the session
  is not deleted from the cloud; the file system is as before.
\<close>

theorem resume_newer_version:
  assumes "getWorkbenchState env \<noteq> EMPTY"
    and "\<not> (silent \<and> \<not> storageInitialize env)"
    and "storageRead env ref = Some (ref1, editSession)"
    and "version editSession > EditSessionSchemaVersion env"
  shows "resumeEditSession env ref silent force fs =
    (fs, (if silent then [StorageInitialize] else []) @
         [StorageRead ref,
          NotifyError (''Please upgrade to a newer version of '' @ nameLong env @
            '' to resume your working changes from the cloud.'')])"
  using assms by (auto simp: resumeEditSession_def Let_def)

theorem resume_newer_version_witness:
  "resumeEditSession
     (exampleEsEnv\<lparr>storageRead := (\<lambda>r. Some (''ref1'', exampleSession 3 []))\<rparr>)
     None False False exampleFiles =
   (exampleFiles,
    [StorageRead None,
     NotifyError ''Please upgrade to a newer version of Code to resume your working changes from the cloud.''])"
proof -
  have h: "getWorkbenchState (exampleEsEnv\<lparr>storageRead := (\<lambda>r. Some (''ref1'', exampleSession 3 []))\<rparr>)
        \<noteq> EMPTY"
      "\<not> (False \<and> \<not> storageInitialize
        (exampleEsEnv\<lparr>storageRead := (\<lambda>r. Some (''ref1'', exampleSession 3 []))\<rparr>))"
      "storageRead (exampleEsEnv\<lparr>storageRead := (\<lambda>r. Some (''ref1'', exampleSession 3 []))\<rparr>) None
        = Some (''ref1'', exampleSession 3 [])"
      "version (exampleSession 3 []) > EditSessionSchemaVersion
        (exampleEsEnv\<lparr>storageRead := (\<lambda>r. Some (''ref1'', exampleSession 3 []))\<rparr>)"
    by (simp_all add: es_example_defs)
  show ?thesis
    using resume_newer_version [OF h, of False exampleFiles]
    by (simp add: exampleEsEnv_def)
qed

subsection \<open>Conflicts with local changes\<close>

text \<open>
  C4. \<open>willChangeLocalContents\<close> reports no conflict for a URI outside the local
  changes. For a URI among them: an addition conflicts exactly when the hash of the
  stored contents differs from the hash of the encoded contents read from the local
  file (a read that fails raises); a deletion conflicts exactly when the local file
  exists; any other change type raises an error.
\<close>

theorem willChangeLocalContents_cases:
  "(uriToString env uri \<notin> set localChanges \<longrightarrow>
      willChangeLocalContents env fs localChanges uri c = Inr False) \<and>
   (uriToString env uri \<in> set localChanges \<and> change_type c = Addition \<and>
    fs_readFile env fs uri = Some v \<longrightarrow>
      willChangeLocalContents env fs localChanges uri c =
        Inr (sha1Hex env (contents c) \<noteq> sha1Hex env (Some (encodeBase64 env v)))) \<and>
   (uriToString env uri \<in> set localChanges \<and> change_type c = Addition \<and>
    fs_readFile env fs uri = None \<longrightarrow>
      willChangeLocalContents env fs localChanges uri c = Inl FileOperationFailed) \<and>
   (uriToString env uri \<in> set localChanges \<and> change_type c = Deletion \<longrightarrow>
      willChangeLocalContents env fs localChanges uri c = Inr (fs_exists env fs uri)) \<and>
   (uriToString env uri \<in> set localChanges \<and> change_type c = UnknownChangeType n \<longrightarrow>
      willChangeLocalContents env fs localChanges uri c = Inl UnhandledChangeType)"
  by (simp add: willChangeLocalContents_def)

theorem willChangeLocalContents_cases_witness:
  "willChangeLocalContents exampleEsEnv exampleFiles [''/proj/a.txt''] ''/proj/b.txt''
     (exampleChange ''b.txt'' Addition (Some ''b64:new'')) = Inr False \<and>
   willChangeLocalContents exampleEsEnv exampleFiles [''/proj/a.txt''] ''/proj/a.txt''
     (exampleChange ''a.txt'' Addition (Some ''b64:new'')) = Inr True \<and>
   willChangeLocalContents exampleEsEnv exampleFiles [''/proj/a.txt''] ''/proj/a.txt''
     (exampleChange ''a.txt'' Addition (Some ''b64:hello'')) = Inr False \<and>
   willChangeLocalContents exampleEsEnv exampleFiles [''/proj/b.txt''] ''/proj/b.txt''
     (exampleChange ''b.txt'' Addition (Some ''b64:new'')) = Inl FileOperationFailed \<and>
   willChangeLocalContents exampleEsEnv exampleFiles [''/proj/a.txt''] ''/proj/a.txt''
     (exampleChange ''a.txt'' Deletion None) = Inr True \<and>
   willChangeLocalContents exampleEsEnv exampleFiles [''/proj/a.txt''] ''/proj/a.txt''
     (exampleChange ''a.txt'' (UnknownChangeType 3) None) = Inl UnhandledChangeType"
proof -
  have r: "fs_readFile exampleEsEnv exampleFiles ''/proj/a.txt'' = Some ''hello''"
      "fs_readFile exampleEsEnv exampleFiles ''/proj/b.txt'' = None"
      "fs_exists exampleEsEnv exampleFiles ''/proj/a.txt''"
      "uriToString exampleEsEnv ''/proj/a.txt'' = ''/proj/a.txt''"
      "uriToString exampleEsEnv ''/proj/b.txt'' = ''/proj/b.txt''"
      "encodeBase64 exampleEsEnv ''hello'' = ''b64:hello''"
      "sha1Hex exampleEsEnv (Some ''b64:hello'') = ''sha:b64:hello''"
      "sha1Hex exampleEsEnv (Some ''b64:new'') = ''sha:b64:new''"
    by (simp_all add: es_example_defs)
  show ?thesis
    using r
      willChangeLocalContents_cases [of exampleEsEnv "''/proj/b.txt''" "[''/proj/a.txt'']"
        exampleFiles "exampleChange ''b.txt'' Addition (Some ''b64:new'')" "''hello''" 3]
      willChangeLocalContents_cases [of exampleEsEnv "''/proj/a.txt''" "[''/proj/a.txt'']"
        exampleFiles "exampleChange ''a.txt'' Addition (Some ''b64:new'')" "''hello''" 3]
      willChangeLocalContents_cases [of exampleEsEnv "''/proj/a.txt''" "[''/proj/a.txt'']"
        exampleFiles "exampleChange ''a.txt'' Addition (Some ''b64:hello'')" "''hello''" 3]
      willChangeLocalContents_cases [of exampleEsEnv "''/proj/b.txt''" "[''/proj/b.txt'']"
        exampleFiles "exampleChange ''b.txt'' Addition (Some ''b64:new'')" "''hello''" 3]
      willChangeLocalContents_cases [of exampleEsEnv "''/proj/a.txt''" "[''/proj/a.txt'']"
        exampleFiles "exampleChange ''a.txt'' Deletion None" "''hello''" 3]
      willChangeLocalContents_cases [of exampleEsEnv "''/proj/a.txt''" "[''/proj/a.txt'']"
        exampleFiles "exampleChange ''a.txt'' (UnknownChangeType 3) None" "''hello''" 3]
    by (simp add: exampleChange_def)
qed

subsection \<open>Matching session folders to workspace folders\<close>

lemma findByIdentity_find:
  "fst (findByIdentity env ref force ci fs) = find (acceptsIdentity env force ci) fs"
proof (induction fs)
  case Nil
  then show ?case by simp
next
  case (Cons f fs)
  have a: "acceptsIdentity env b ci f \<longleftrightarrow>
      (case getEditSessionIdentifier env f of
        None \<Rightarrow> False
      | Some identity \<Rightarrow>
          identity = ci \<or>
          provideEditSessionIdentityMatch env f identity ci = Some Complete \<or>
          (provideEditSessionIdentityMatch env f identity ci = Some Partial \<and>
           partialMatchesEnabled env \<and> b))" for b
    by (simp add: acceptsIdentity_def)
  show ?case
    using Cons.IH
    by (cases force)
      (auto simp: a split: option.splits EditSessionIdentityMatch.splits prod.splits)
qed

lemma folderRoot_find:
  "fst (folderRoot env ref force f) =
     (case canonicalIdentity f of
        Some ci \<Rightarrow>
          if ci \<noteq> [] then find (acceptsIdentity env force ci) (workspaceFolders env)
          else find (\<lambda>w. wf_name w = name f) (workspaceFolders env)
      | None \<Rightarrow> find (\<lambda>w. wf_name w = name f) (workspaceFolders env))"
  by (simp add: folderRoot_def findByIdentity_find split: option.splits)

lemma generateFolders_unmatched:
  "\<exists>f \<in> set fs. fst (folderRoot env ref force f) = None \<Longrightarrow>
   fst (generateFolders env fs0 ref force fs acc) = Inr ([], []) \<or>
   (\<exists>e. fst (generateFolders env fs0 ref force fs acc) = Inl e)"
proof (induction fs arbitrary: acc)
  case Nil
  then show ?case by simp
next
  case (Cons f fs)
  obtain r effs where fr: "folderRoot env ref force f = (r, effs)" by force
  show ?case
  proof (cases r)
    case None
    with fr show ?thesis by simp
  next
    case (Some root)
    with fr Cons.prems have ex: "\<exists>f \<in> set fs. fst (folderRoot env ref force f) = None"
      by auto
    show ?thesis
    proof (cases "collectChanges env fs0 (localChangesOf env f) (wf_uri root) (workingChanges f) acc")
      case (Inl e)
      with fr Some show ?thesis by simp
    next
      case (Inr acc1)
      with fr Some Cons.IH [OF ex, of acc1] show ?thesis
        by (auto split: prod.splits)
    qed
  qed
qed

lemma collectChanges_returns:
  "\<forall>c \<in> set cs. \<exists>b. willChangeLocalContents env fs lc (joinPath env root (relativeFilePath c)) c = Inr b
   \<Longrightarrow> \<exists>r. collectChanges env fs lc root cs acc = Inr r"
proof (induction cs arbitrary: acc)
  case Nil
  then show ?case by simp
next
  case (Cons c cs)
  obtain a b where acc: "acc = (a, b)" by force
  from Cons.prems obtain w where
    w: "willChangeLocalContents env fs lc (joinPath env root (relativeFilePath c)) c = Inr w"
    by auto
  from Cons.prems have rest: "\<forall>c \<in> set cs. \<exists>b.
      willChangeLocalContents env fs lc (joinPath env root (relativeFilePath c)) c = Inr b"
    by simp
  show ?case
    using Cons.IH [OF rest] w by (cases w) (simp_all add: acc Let_def)
qed

lemma collectChanges_raises:
  "\<not> (\<forall>c \<in> set cs. \<exists>b. willChangeLocalContents env fs lc (joinPath env root (relativeFilePath c)) c = Inr b)
   \<Longrightarrow> \<exists>e. collectChanges env fs lc root cs acc = Inl e"
proof (induction cs arbitrary: acc)
  case Nil
  then show ?case by simp
next
  case (Cons c cs)
  obtain a b where acc: "acc = (a, b)" by force
  show ?case
  proof (cases "willChangeLocalContents env fs lc (joinPath env root (relativeFilePath c)) c")
    case (Inl e)
    then show ?thesis by (simp add: acc Let_def)
  next
    case (Inr w)
    with Cons.prems have "\<not> (\<forall>c \<in> set cs. \<exists>b.
        willChangeLocalContents env fs lc (joinPath env root (relativeFilePath c)) c = Inr b)"
      by auto
    from Cons.IH [OF this] Inr show ?thesis
      by (cases w) (simp_all add: acc Let_def)
  qed
qed

lemma generateFolders_first_unmatched:
  "k < length fs \<Longrightarrow> fst (folderRoot env ref force (fs ! k)) = None \<Longrightarrow>
   \<forall>f \<in> set (take k fs). checksReturn env fs0 ref force f \<Longrightarrow>
   fst (generateFolders env fs0 ref force fs acc) = Inr ([], [])"
proof (induction fs arbitrary: k acc)
  case Nil
  then show ?case by simp
next
  case (Cons f fs)
  obtain r effs where fr: "folderRoot env ref force f = (r, effs)" by force
  show ?case
  proof (cases r)
    case None
    with fr show ?thesis by simp
  next
    case (Some root)
    with fr Cons.prems(2) obtain k' where k: "k = Suc k'" by (cases k) auto
    with Cons.prems have k': "k' < length fs" "fst (folderRoot env ref force (fs ! k')) = None"
      "\<forall>f \<in> set (take k' fs). checksReturn env fs0 ref force f"
      and cf: "checksReturn env fs0 ref force f"
      by simp_all
    from cf fr Some have "\<forall>c \<in> set (workingChanges f). \<exists>b.
        willChangeLocalContents env fs0 (localChangesOf env f)
          (joinPath env (wf_uri root) (relativeFilePath c)) c = Inr b"
      by (simp add: checksReturn_def)
    from collectChanges_returns [OF this, of acc] obtain acc1 where
      "collectChanges env fs0 (localChangesOf env f) (wf_uri root) (workingChanges f) acc = Inr acc1"
      by auto
    with fr Some Cons.IH [OF k', of acc1] show ?thesis
      by (auto split: prod.splits)
  qed
qed

lemma generateFolders_check_raises:
  "k \<le> length fs \<Longrightarrow> \<forall>j < k. fst (folderRoot env ref force (fs ! j)) \<noteq> None \<Longrightarrow>
   \<exists>j < k. \<not> checksReturn env fs0 ref force (fs ! j) \<Longrightarrow>
   \<exists>e. fst (generateFolders env fs0 ref force fs acc) = Inl e"
proof (induction fs arbitrary: k acc)
  case Nil
  then show ?case by simp
next
  case (Cons f fs)
  from Cons.prems(3) obtain k' where k: "k = Suc k'" by (cases k) auto
  obtain r effs where fr: "folderRoot env ref force f = (r, effs)" by force
  from Cons.prems(2) k fr obtain root where root: "r = Some root" by fastforce
  show ?case
  proof (cases "checksReturn env fs0 ref force f")
    case False
    with fr root have "\<not> (\<forall>c \<in> set (workingChanges f). \<exists>b.
        willChangeLocalContents env fs0 (localChangesOf env f)
          (joinPath env (wf_uri root) (relativeFilePath c)) c = Inr b)"
      by (simp add: checksReturn_def)
    from collectChanges_raises [OF this, of acc] fr root show ?thesis by auto
  next
    case True
    with fr root have "\<forall>c \<in> set (workingChanges f). \<exists>b.
        willChangeLocalContents env fs0 (localChangesOf env f)
          (joinPath env (wf_uri root) (relativeFilePath c)) c = Inr b"
      by (simp add: checksReturn_def)
    from collectChanges_returns [OF this, of acc] obtain acc1 where c:
      "collectChanges env fs0 (localChangesOf env f) (wf_uri root) (workingChanges f) acc = Inr acc1"
      by auto
    from Cons.prems k have 1: "k' \<le> length fs"
      and 2: "\<forall>j < k'. fst (folderRoot env ref force (fs ! j)) \<noteq> None"
      by auto
    from Cons.prems(3) k True have 3: "\<exists>j < k'. \<not> checksReturn env fs0 ref force (fs ! j)"
      by (auto simp: less_Suc_eq_0_disj)
    from Cons.IH [OF 1 2 3, of acc1] fr root c show ?thesis
      by (auto split: prod.splits)
  qed
qed

text \<open>
  C3, amended. \<open>generateChanges\<close> matches a session folder with a canonical identity
  (a non-empty string) to the first workspace folder whose edit-session identity equals
  it, or whose identity match is \<open>Complete\<close>, or is \<open>Partial\<close> with partial matches
  enabled and \<open>force\<close> set; it matches a folder without one to the first workspace
  folder of the same name. If some session folder has no match, \<open>generateChanges\<close>
  gives no changes to apply: it returns empty changes and empty conflicting changes when
  no conflict check on the folders before the first unmatched one raises, and raises
  the error of such a check when one does.
\<close>

theorem generateChanges_matching:
  "(\<forall>f ci. canonicalIdentity f = Some ci \<and> ci \<noteq> [] \<longrightarrow>
      fst (folderRoot env ref force f) =
        find (acceptsIdentity env force ci) (workspaceFolders env)) \<and>
   (\<forall>f. \<not> truthy (canonicalIdentity f) \<longrightarrow>
      fst (folderRoot env ref force f) =
        find (\<lambda>w. wf_name w = name f) (workspaceFolders env)) \<and>
   ((\<exists>f \<in> set (folders editSession). fst (folderRoot env ref force f) = None) \<longrightarrow>
      fst (generateChanges env fs editSession ref force) = Inr ([], []) \<or>
      (\<exists>e. fst (generateChanges env fs editSession ref force) = Inl e)) \<and>
   (\<forall>k < length (folders editSession).
      fst (folderRoot env ref force (folders editSession ! k)) = None \<and>
      (\<forall>f \<in> set (take k (folders editSession)). checksReturn env fs ref force f) \<longrightarrow>
      fst (generateChanges env fs editSession ref force) = Inr ([], [])) \<and>
   (\<forall>k \<le> length (folders editSession).
      (\<forall>j < k. fst (folderRoot env ref force (folders editSession ! j)) \<noteq> None) \<and>
      (\<exists>j < k. \<not> checksReturn env fs ref force (folders editSession ! j)) \<longrightarrow>
      (\<exists>e. fst (generateChanges env fs editSession ref force) = Inl e))"
proof -
  have 1: "\<forall>f ci. canonicalIdentity f = Some ci \<and> ci \<noteq> [] \<longrightarrow>
      fst (folderRoot env ref force f) =
        find (acceptsIdentity env force ci) (workspaceFolders env)"
    by (simp add: folderRoot_find)
  have 2: "\<forall>f. \<not> truthy (canonicalIdentity f) \<longrightarrow>
      fst (folderRoot env ref force f) =
        find (\<lambda>w. wf_name w = name f) (workspaceFolders env)"
    by (auto simp: folderRoot_find truthy_def split: option.splits)
  have 3: "(\<exists>f \<in> set (folders editSession). fst (folderRoot env ref force f) = None) \<longrightarrow>
      fst (generateChanges env fs editSession ref force) = Inr ([], []) \<or>
      (\<exists>e. fst (generateChanges env fs editSession ref force) = Inl e)"
    using generateFolders_unmatched [of "folders editSession" env ref force fs "([], [])"]
    by (simp add: generateChanges_def)
  have 4: "\<forall>k < length (folders editSession).
      fst (folderRoot env ref force (folders editSession ! k)) = None \<and>
      (\<forall>f \<in> set (take k (folders editSession)). checksReturn env fs ref force f) \<longrightarrow>
      fst (generateChanges env fs editSession ref force) = Inr ([], [])"
    using generateFolders_first_unmatched [of _ "folders editSession" env ref force fs "([], [])"]
    by (simp add: generateChanges_def)
  have 5: "\<forall>k \<le> length (folders editSession).
      (\<forall>j < k. fst (folderRoot env ref force (folders editSession ! j)) \<noteq> None) \<and>
      (\<exists>j < k. \<not> checksReturn env fs ref force (folders editSession ! j)) \<longrightarrow>
      (\<exists>e. fst (generateChanges env fs editSession ref force) = Inl e)"
    using generateFolders_check_raises [of _ "folders editSession" env ref force fs "([], [])"]
    by (simp add: generateChanges_def)
  from 1 2 3 4 5 show ?thesis by blast
qed

text \<open>
  The claim as stated fails when a conflict check raises before the unmatched folder is
  reached: the first folder is matched by name and holds a change of an unhandled type
  for a locally changed file, the second folder has no match, and \<open>generateChanges\<close>
  raises instead of returning empty results.
\<close>

theorem generateChanges_raises_counterexample:
  "fst (folderRoot exampleEsEnv ''ref1'' False
      \<lparr>name = ''other'', canonicalIdentity = None, workingChanges = []\<rparr>) = None \<and>
   fst (generateChanges exampleEsEnv exampleFiles (exampleSession 2
          [\<lparr>name = ''proj'', canonicalIdentity = None,
            workingChanges = [exampleChange ''a.txt'' (UnknownChangeType 3) None]\<rparr>,
           \<lparr>name = ''other'', canonicalIdentity = None, workingChanges = []\<rparr>])
          ''ref1'' False) = Inl UnhandledChangeType"
  by (simp add: es_example_defs generate_defs)

theorem generateChanges_matching_witness:
  "fst (folderRoot exampleEsEnv ''ref1'' False
      \<lparr>name = ''proj'', canonicalIdentity = Some ''id:proj'', workingChanges = []\<rparr>) =
     Some exampleFolder \<and>
   fst (folderRoot exampleEsEnv ''ref1'' False
      \<lparr>name = ''proj'', canonicalIdentity = None, workingChanges = []\<rparr>) = Some exampleFolder \<and>
   fst (generateChanges exampleEsEnv exampleFiles (exampleSession 2
      [\<lparr>name = ''proj'', canonicalIdentity = None,
        workingChanges = [exampleChange ''a.txt'' Addition (Some ''b64:new'')]\<rparr>,
       \<lparr>name = ''other'', canonicalIdentity = None, workingChanges = []\<rparr>])
      ''ref1'' False) = Inr ([], []) \<and>
   (\<exists>e. fst (generateChanges exampleEsEnv exampleFiles (exampleSession 2
      [\<lparr>name = ''proj'', canonicalIdentity = None,
        workingChanges = [exampleChange ''b.txt'' Addition (Some ''b64:new'')]\<rparr>,
       \<lparr>name = ''other'', canonicalIdentity = None, workingChanges = []\<rparr>])
      ''ref1'' False) = Inl e)"
proof -
  define good where "good = exampleSession 2
      [\<lparr>name = ''proj'', canonicalIdentity = None,
        workingChanges = [exampleChange ''a.txt'' Addition (Some ''b64:new'')]\<rparr>,
       \<lparr>name = ''other'', canonicalIdentity = None, workingChanges = []\<rparr>]"
  define bad where "bad = exampleSession 2
      [\<lparr>name = ''proj'', canonicalIdentity = None,
        workingChanges = [exampleChange ''b.txt'' Addition (Some ''b64:new'')]\<rparr>,
       \<lparr>name = ''other'', canonicalIdentity = None, workingChanges = []\<rparr>]"
  have a: "acceptsIdentity exampleEsEnv False ''id:proj'' exampleFolder"
    by (simp add: acceptsIdentity_def es_example_defs)
  have w: "workspaceFolders exampleEsEnv = [exampleFolder]"
    by (simp add: exampleEsEnv_def)
  have l: "(1::nat) < length (folders good)" "(1::nat) \<le> length (folders bad)"
    by (simp_all add: good_def bad_def exampleSession_def)
  have u: "fst (folderRoot exampleEsEnv ''ref1'' False (folders good ! 1)) = None"
    by (simp add: good_def es_example_defs generate_defs)
  have c: "\<forall>f \<in> set (take 1 (folders good)). checksReturn exampleEsEnv exampleFiles ''ref1'' False f"
    by (auto simp add: good_def es_example_defs generate_defs checksReturn_def)
  have m: "\<forall>j < 1. fst (folderRoot exampleEsEnv ''ref1'' False (folders bad ! j)) \<noteq> None"
    by (simp add: bad_def es_example_defs generate_defs)
  have n: "\<exists>j < 1. \<not> checksReturn exampleEsEnv exampleFiles ''ref1'' False (folders bad ! j)"
    by (simp add: bad_def es_example_defs generate_defs checksReturn_def)
  note t = generateChanges_matching [of exampleEsEnv "''ref1''" False good exampleFiles]
  note t' = generateChanges_matching [of exampleEsEnv "''ref1''" False bad exampleFiles]
  from t [THEN conjunct1, rule_format, of
      "\<lparr>name = ''proj'', canonicalIdentity = Some ''id:proj'', workingChanges = []\<rparr>" "''id:proj''"]
  have 1: "fst (folderRoot exampleEsEnv ''ref1'' False
      \<lparr>name = ''proj'', canonicalIdentity = Some ''id:proj'', workingChanges = []\<rparr>) =
     Some exampleFolder"
    using a by (simp add: w)
  from t [THEN conjunct2, THEN conjunct1, rule_format, of
      "\<lparr>name = ''proj'', canonicalIdentity = None, workingChanges = []\<rparr>"]
  have 2: "fst (folderRoot exampleEsEnv ''ref1'' False
      \<lparr>name = ''proj'', canonicalIdentity = None, workingChanges = []\<rparr>) = Some exampleFolder"
    by (simp add: w truthy_def) (simp add: exampleFolder_def)
  from t l(1) u c have 3: "fst (generateChanges exampleEsEnv exampleFiles good ''ref1'' False) =
      Inr ([], [])"
    by blast
  from t' l(2) m n have 4: "\<exists>e. fst (generateChanges exampleEsEnv exampleFiles bad ''ref1'' False) =
      Inl e"
    by blast
  from 1 2 3 4 show ?thesis by (simp add: good_def bad_def)
qed

subsection \<open>Storing an edit session\<close>

lemma foldl_setAdd:
  "distinct acc \<Longrightarrow> distinct (foldl setAdd acc xs) \<and> set (foldl setAdd acc xs) = set acc \<union> set xs"
  by (induction xs arbitrary: acc) (auto simp: setAdd_def)

lemma foldl_groups:
  "distinct acc \<Longrightarrow>
   distinct (foldl (\<lambda>resources resourceGroup. foldl setAdd resources resourceGroup) acc gs) \<and>
   set (foldl (\<lambda>resources resourceGroup. foldl setAdd resources resourceGroup) acc gs) =
     set acc \<union> \<Union> (set ` set gs)"
proof (induction gs arbitrary: acc)
  case Nil
  then show ?case by simp
next
  case (Cons g gs)
  from foldl_setAdd [OF Cons.prems, of g]
  have d: "distinct (foldl setAdd acc g)" and s: "set (foldl setAdd acc g) = set acc \<union> set g"
    by simp_all
  from Cons.IH [OF d] s show ?case by auto
qed

lemma getChangedResources_set:
  "distinct (getChangedResources r) \<and>
   set (getChangedResources r) = \<Union> (set ` set (resourceGroups r))"
  using foldl_groups [of "[]" "resourceGroups r"] by (simp add: getChangedResources_def)

lemma storeTrackedUris_effects:
  "storeTrackedUris env fs uris st = (r, st') \<Longrightarrow> \<forall>e \<in> set (sl_effects st). loopEffect e \<Longrightarrow>
   \<forall>e \<in> set (sl_effects st'). loopEffect e"
proof (induction uris arbitrary: st)
  case Nil
  then show ?case by simp
next
  case (Cons u us)
  show ?case
  proof (cases "getWorkspaceFolder env u")
    case None
    with Cons show ?thesis by simp
  next
    case (Some w)
    define st1 where "st1 = st\<lparr>sl_effects := sl_effects st @ [WillCreateEditSessionIdentity w],
        sl_name := (case sl_name st of Some n \<Rightarrow> Some n | None \<Rightarrow> Some (wf_name w))\<rparr>"
    from Cons.prems(2) have l: "\<forall>e \<in> set (sl_effects st1). loopEffect e"
      by (auto simp: st1_def loopEffect_def)
    from Cons.prems(1) Some Cons.IH l show ?thesis
      by (auto simp: Let_def st1_def [symmetric] split: if_splits option.splits)
  qed
qed

lemma storeTrackedUris_changes:
  "storeTrackedUris env fs uris st = (None, st') \<Longrightarrow>
   sl_workingChanges st' =
     sl_workingChanges st @ map (changeOf env fs) (filter (trackedFile env fs) uris) \<and>
   (\<forall>u \<in> set uris. trackedFile env fs u \<and> fs_exists env fs u \<longrightarrow>
      (\<exists>v. fs_readFile env fs u = Some v))"
proof (induction uris arbitrary: st)
  case Nil
  then show ?case by simp
next
  case (Cons u us)
  show ?case
  proof (cases "getWorkspaceFolder env u")
    case None
    with Cons show ?thesis by (simp add: trackedFile_def)
  next
    case (Some w)
    define st1 where "st1 = st\<lparr>sl_effects := sl_effects st @ [WillCreateEditSessionIdentity w],
        sl_name := (case sl_name st of Some n \<Rightarrow> Some n | None \<Rightarrow> Some (wf_name w))\<rparr>"
    have w1: "sl_workingChanges st1 = sl_workingChanges st" by (simp add: st1_def)
    show ?thesis
    proof (cases "fs_stat env fs u = Some False")
      case True
      with Cons.prems Some have "storeTrackedUris env fs us st1 = (None, st')"
        by (simp add: Let_def st1_def)
      from Cons.IH [OF this] True Some w1 show ?thesis by (simp add: trackedFile_def)
    next
      case False
      then have t: "trackedFile env fs u" by (simp add: trackedFile_def Some)
      show ?thesis
      proof (cases "fs_exists env fs u")
        case True
        with Cons.prems Some False obtain v where v: "fs_readFile env fs u = Some v"
          by (auto simp: Let_def split: option.splits)
        define c where "c = \<lparr>relativeFilePath =
            (case relativePath env (wf_uri w) u of Some p \<Rightarrow> p | None \<Rightarrow> uriPath env u),
            fileType = File, change_type = Addition, contents = Some (encodeBase64 env v)\<rparr>"
        have c: "changeOf env fs u = c" by (simp add: changeOf_def c_def Some True v)
        from Cons.prems Some False True v
        have "storeTrackedUris env fs us
            (st1\<lparr>hasEdits := True, sl_workingChanges := sl_workingChanges st1 @ [c]\<rparr>) = (None, st')"
          by (simp add: Let_def st1_def c_def)
        from Cons.IH [OF this] t v w1 show ?thesis by (simp add: c)
      next
        case nex: False
        define c where "c = \<lparr>relativeFilePath =
            (case relativePath env (wf_uri w) u of Some p \<Rightarrow> p | None \<Rightarrow> uriPath env u),
            fileType = File, change_type = Deletion, contents = None\<rparr>"
        have c: "changeOf env fs u = c" by (simp add: changeOf_def c_def Some nex)
        from Cons.prems Some False nex
        have "storeTrackedUris env fs us
            (st1\<lparr>hasEdits := True, sl_workingChanges := sl_workingChanges st1 @ [c]\<rparr>) = (None, st')"
          by (simp add: Let_def st1_def c_def)
        from Cons.IH [OF this] t nex w1 show ?thesis by (simp add: c)
      qed
    qed
  qed
qed

lemma storeRepositories_effects:
  "storeRepositories env fs repos folders1 h effs = (r, folders2, h2, effs2) \<Longrightarrow>
   \<forall>e \<in> set effs. loopEffect e \<Longrightarrow> \<forall>e \<in> set effs2. loopEffect e"
proof (induction repos arbitrary: folders1 h effs)
  case Nil
  then show ?case by simp
next
  case (Cons repo repos)
  define st0 :: "'a store_loop" where "st0 = \<lparr>sl_name = map_option wf_name
      (case rootUri repo of Some r \<Rightarrow> getWorkspaceFolder env r | None \<Rightarrow> None),
      hasEdits = h, sl_workingChanges = [], sl_effects = effs\<rparr>"
  obtain q st where q: "storeTrackedUris env fs (getChangedResources repo) st0 = (q, st)"
    by force
  from Cons.prems(2) have "\<forall>e \<in> set (sl_effects st0). loopEffect e" by (simp add: st0_def)
  from storeTrackedUris_effects [OF q this] have l: "\<forall>e \<in> set (sl_effects st). loopEffect e" .
  show ?case
  proof (cases q)
    case None
    with Cons.prems(1) q Cons.IH [OF _ l] show ?thesis
      by (simp add: Let_def st0_def [symmetric])
  next
    case (Some e)
    with Cons.prems(1) q l show ?thesis
      by (simp add: Let_def st0_def [symmetric])
  qed
qed

lemma storeRepositories_folders:
  "storeRepositories env fs repos folders1 h effs = (None, folders2, h2, effs2) \<Longrightarrow>
   map workingChanges folders2 =
     map workingChanges folders1 @
     map (\<lambda>r. map (changeOf env fs) (filter (trackedFile env fs) (getChangedResources r))) repos \<and>
   (\<forall>r \<in> set repos. \<forall>u \<in> set (getChangedResources r).
      trackedFile env fs u \<and> fs_exists env fs u \<longrightarrow> (\<exists>v. fs_readFile env fs u = Some v))"
proof (induction repos arbitrary: folders1 h effs)
  case Nil
  then show ?case by simp
next
  case (Cons repo repos)
  define st0 :: "'a store_loop" where "st0 = \<lparr>sl_name = map_option wf_name
      (case rootUri repo of Some r \<Rightarrow> getWorkspaceFolder env r | None \<Rightarrow> None),
      hasEdits = h, sl_workingChanges = [], sl_effects = effs\<rparr>"
  obtain q st where q: "storeTrackedUris env fs (getChangedResources repo) st0 = (q, st)"
    by force
  show ?case
  proof (cases q)
    case (Some e)
    with Cons.prems q show ?thesis by (simp add: Let_def st0_def [symmetric])
  next
    case None
    from storeTrackedUris_changes [OF q [unfolded None]]
    have w: "sl_workingChanges st =
        map (changeOf env fs) (filter (trackedFile env fs) (getChangedResources repo))"
      and rd: "\<forall>u \<in> set (getChangedResources repo).
        trackedFile env fs u \<and> fs_exists env fs u \<longrightarrow> (\<exists>v. fs_readFile env fs u = Some v)"
      by (simp_all add: st0_def)
    from Cons.prems q None obtain f where
      "storeRepositories env fs repos (folders1 @ [f]) (hasEdits st) (sl_effects st) =
         (None, folders2, h2, effs2)" and f: "workingChanges f = sl_workingChanges st"
      by (simp add: Let_def st0_def [symmetric])
    from Cons.IH [OF this(1)] f w rd show ?thesis by simp
  qed
qed

text \<open>
  An edit session that \<open>storeEditSession\<close> passes to the storage service has
  version 2 and one folder for each SCM repository, in order. The working changes of a
  folder are, in the order of the repository's changed resources (each URI object once),
  the changes of those that lie in a workspace folder and are not known to be something
  other than a file: an addition with the base64-encoded contents of the file when it
  exists, which the file service did read, and a deletion without contents when it does
  not. Changed resources without a workspace folder give no entry.
\<close>

lemma storeEditSession_stored:
  assumes "StorageWrite data \<in> set (snd (storeEditSession env fromStoreCommand fs0))"
  shows "version data = 2 \<and>
    map workingChanges (folders data) =
      map (\<lambda>r. map (changeOf env (saveAll env fs0))
                 (filter (trackedFile env (saveAll env fs0)) (getChangedResources r)))
        (repositories env) \<and>
    (\<forall>r \<in> set (repositories env).
       distinct (getChangedResources r) \<and>
       set (getChangedResources r) = \<Union> (set ` set (resourceGroups r)) \<and>
       (\<forall>u \<in> set (getChangedResources r).
          trackedFile env (saveAll env fs0) u \<and> fs_exists env (saveAll env fs0) u \<longrightarrow>
          (\<exists>v. fs_readFile env (saveAll env fs0) u = Some v)))"
proof -
  define fs where "fs = saveAll env fs0"
  obtain q folders2 h2 effs2 where
    s: "storeRepositories env fs (repositories env) [] False [SaveAll] = (q, folders2, h2, effs2)"
    by (metis prod_cases4)
  have "\<forall>e \<in> set [SaveAll :: 'a effect]. loopEffect e" by (simp add: loopEffect_def)
  from storeRepositories_effects [OF s this] have l: "\<forall>e \<in> set effs2. loopEffect e" .
  then have nw: "StorageWrite d \<notin> set effs2" for d
    by (auto simp: loopEffect_def)
  show ?thesis
  proof (cases q)
    case (Some e)
    with assms s nw show ?thesis
      by (simp add: storeEditSession_def Let_def fs_def [symmetric])
  next
    case None
    from assms s None nw have d: "data = \<lparr>version = 2, folders = folders2\<rparr>"
      by (auto simp: storeEditSession_def Let_def fs_def [symmetric]
          split: if_splits sum.splits write_failure.splits)
    from storeRepositories_folders [OF s [unfolded None]]
    show ?thesis by (simp add: d fs_def getChangedResources_set)
  qed
qed

text \<open>
  C1. The stored folder does not hold exactly one entry per changed resource URI. In
  the example workspace, with a repository in which the file \<open>a.txt\<close> has a resource
  in each of two resource groups, the two source URIs are two objects of the same text.
  \<open>getChangedResources\<close> keeps both, and \<open>storeEditSession\<close> writes to the
  storage service an edit session of version 2 whose folder has two additions for
  \<open>a.txt\<close>, with the same contents, before the deletion for \<open>b.txt\<close>.
\<close>

theorem stored_session_duplicate_entry:
  "uriToString (objectEnv exampleEsEnv [exampleStagedRepository]) (2, ''/proj/a.txt'') =
     uriToString (objectEnv exampleEsEnv [exampleStagedRepository]) (3, ''/proj/a.txt'') \<and>
   getChangedResources exampleStagedRepository =
     [(2, ''/proj/a.txt''), (3, ''/proj/a.txt''), (4, ''/proj/b.txt'')] \<and>
   storeEditSession (objectEnv exampleEsEnv [exampleStagedRepository]) True exampleFiles =
     (Inr (Some ''ref1''),
      [SaveAll,
       WillCreateEditSessionIdentity (objectFolder exampleFolder),
       WillCreateEditSessionIdentity (objectFolder exampleFolder),
       WillCreateEditSessionIdentity (objectFolder exampleFolder),
       StorageWrite \<lparr>version = 2, folders =
         [\<lparr>name = ''proj'', canonicalIdentity = Some ''id:proj'', workingChanges =
            [exampleChange ''a.txt'' Addition (Some ''b64:hello''),
             exampleChange ''a.txt'' Addition (Some ''b64:hello''),
             exampleChange ''b.txt'' Deletion None]\<rparr>]\<rparr>])"
  by (simp add: storeEditSession_def objectEnv_def objectFolder_def textFolder_def
      exampleStagedRepository_def es_example_defs getChangedResources_def setAdd_def Let_def)


subsection \<open>Applying an edit session\<close>










end
